theory Spec2Isabelle
  imports Main
begin

section \<open>Server configuration: data model\<close>

text \<open>
  The embedding follows the Go package \<open>teaconfigs\<close>, file of \<open>ServerConfig\<close>.
  Pointers to structs are modelled by the structs themselves; a nil pointer is \<open>None\<close>.
  Methods that write to their receiver take the receiver and return the new one.
  The embedding is sequential: the mutex \<open>schedulingLocker\<close> is not part of the state.
\<close>

text \<open>
  \<open>maps.Map\<close> is Go's \<open>map[string]interface{}\<close>. A variable of that type may be nil:
  reading or ranging over a nil map behaves like the empty map, assigning to an entry of
  a nil map panics. A map variable is therefore an \<open>option\<close>, \<open>None\<close> being nil.
\<close>

type_synonym 'v Map = "string \<Rightarrow> 'v option"

datatype panic = AssignmentToEntryInNilMap | NilPointerDereference

text \<open>
  The values built with \<open>errors.New\<close> in \<open>FindHeaderList\<close>, by what they report missing,
  and the errors of the validators of the sub-configurations, whose code is elsewhere.
\<close>

datatype error =
    LocationNotFound
  | RewriteNotFound
  | FastcgiNotFound
  | BackendNotFound
  | ValidationError string

text \<open>
  \<open>ServerBackendConfig\<close>, \<open>RewriteRule\<close>, \<open>FastcgiConfig\<close>, \<open>RewriteList\<close>,
  \<open>FastcgiList\<close>, \<open>LocationConfig\<close> and \<open>SchedulingConfig\<close> are declared in other
  files of the package; the records hold the fields that the functions of
  \<open>ServerConfig\<close> read. The static \<open>Options\<close> of a \<open>SchedulingConfig\<close> are only ranged
  over, so a nil map there is the empty map.
\<close>

record ServerBackendConfig =
  Id :: string
  On :: bool
  IsDown :: bool
  IsBackup :: bool

record RewriteRule =
  Id :: string

record FastcgiConfig =
  Id :: string

record RewriteList =
  Rewrite :: "RewriteRule list"

record FastcgiList =
  Fastcgi :: "FastcgiConfig list"

record LocationConfig =
  FastcgiList :: FastcgiList
  RewriteList :: RewriteList
  Id :: string
  Backends :: "ServerBackendConfig list"

record 'v SchedulingConfig =
  Code :: string
  Options :: "'v Map"

text \<open>
  \<open>scheduling.SchedulingInterface\<close>: an object with the methods \<open>Add\<close>, \<open>Start\<close> and
  \<open>Next\<close>. The object is its method table together with its private state \<open>'s\<close>, which
  the methods update. \<open>Next\<close> reads the options it is given and hands out one of the
  candidates, or nil.
\<close>

record ('v, 's) SchedulingInterface =
  Add :: "ServerBackendConfig \<Rightarrow> 's \<Rightarrow> 's"
  Start :: "'s \<Rightarrow> 's"
  Next :: "'v Map option \<Rightarrow> 's \<Rightarrow> ServerBackendConfig option \<times> 's"
  state :: 's

text \<open>
  \<open>ServerConfig\<close>. The type parameters stand for the structs of other packages that the
  server only passes on: \<open>'h\<close> the embedded \<open>shared.HeaderList\<close>, \<open>'ssl\<close> the
  \<open>SSLConfig\<close>, \<open>'pol\<close> the \<open>shared.CachePolicy\<close>, \<open>'api\<close> the \<open>api.APIConfig\<close>.
  Fields that no function of the file reads (marked TODO in the source, \<open>Root\<close>,
  \<open>Index\<close>, \<open>AccessLog\<close> and so on) are left out.
\<close>

record ('h, 'ssl, 'pol, 'api, 'v, 's) ServerConfig =
  HeaderList :: 'h
  FastcgiList :: FastcgiList
  RewriteList :: RewriteList
  On :: bool
  Id :: string
  Description :: string
  Name :: "string list"
  Http :: bool
  Listen :: "string list"
  Backends :: "ServerBackendConfig list"
  Scheduling :: "'v SchedulingConfig option"
  Locations :: "LocationConfig list"
  SSL :: "'ssl option"
  Filename :: string
  CachePolicy :: string
  cachePolicy :: "'pol option"
  API :: "'api option"
  schedulingIsBackup :: bool
  schedulingObject :: "('v, 's) SchedulingInterface option"

text \<open>The zero value \<open>&ServerConfig{}\<close>, around the zero value of the embedded header list.\<close>

definition zeroServerConfig :: "'h \<Rightarrow> ('h, 'ssl, 'pol, 'api, 'v, 's) ServerConfig" where
  "zeroServerConfig h =
     \<lparr> HeaderList = h,
       FastcgiList = \<lparr> Fastcgi = [] \<rparr>,
       RewriteList = \<lparr> Rewrite = [] \<rparr>,
       On = False,
       Id = [],
       Description = [],
       Name = [],
       Http = False,
       Listen = [],
       Backends = [],
       Scheduling = None,
       Locations = [],
       SSL = None,
       Filename = [],
       CachePolicy = [],
       cachePolicy = None,
       API = None,
       schedulingIsBackup = False,
       schedulingObject = None \<rparr>"

section \<open>Matching a domain name\<close>

text \<open>\<open>strings.Split(s, sep)\<close> for a separator of one byte: one more piece than separators.\<close>

fun Split :: "string \<Rightarrow> char \<Rightarrow> string list" where
  "Split [] sep = [[]]"
| "Split (c # cs) sep =
     (if c = sep then [] # Split cs sep
      else (case Split cs sep of
              [] \<Rightarrow> [[c]]
            | p # ps \<Rightarrow> (c # p) # ps))"

text \<open>
  The inner loop of \<open>MatchName\<close>, \<open>for index, piece := range pieces2\<close>, from \<open>index\<close> on.
  \<open>MatchName\<close> enters it only when both lists have the same length, so \<open>pieces1[index]\<close>
  is in range.
\<close>

fun matchPieces :: "string list \<Rightarrow> nat \<Rightarrow> string list \<Rightarrow> bool" where
  "matchPieces pieces1 index [] = True"
| "matchPieces pieces1 index (piece # pieces2) =
     (if pieces1 ! index \<noteq> piece \<and> piece \<noteq> ''*'' \<and> piece \<noteq> [] then False
      else matchPieces pieces1 (Suc index) pieces2)"

text \<open>The outer loop, \<open>for _, testName := range this.Name\<close>.\<close>

fun matchNames :: "string \<Rightarrow> string list \<Rightarrow> string list \<Rightarrow> string \<times> bool" where
  "matchNames name pieces1 [] = ([], False)"
| "matchNames name pieces1 (testName # names) =
     (if length testName = 0 then matchNames name pieces1 names
      else if name = testName then (testName, True)
      else (let pieces2 = Split testName (CHR ''.'') in
            if length pieces1 \<noteq> length pieces2 then matchNames name pieces1 names
            else if matchPieces pieces1 0 pieces2 then ([], True)
            else matchNames name pieces1 names))"

definition MatchName ::
  "('h, 'ssl, 'pol, 'api, 'v, 's) ServerConfig \<Rightarrow> string \<Rightarrow> string \<times> bool" where
  "MatchName this name =
     (if length name = 0 then ([], False)
      else matchNames name (Split name (CHR ''.'')) (Name this))"

text \<open>
  The match of a name against one pattern in the words of the specification: the same
  number of dot-separated segments, and each segment of the name equal to the segment of
  the pattern, unless that one is \<open>*\<close> or empty.
\<close>

definition segmentwise :: "string \<Rightarrow> string \<Rightarrow> bool" where
  "segmentwise name pattern =
     (length (Split name (CHR ''.'')) = length (Split pattern (CHR ''.'')) \<and>
      list_all2 (\<lambda>s p. s = p \<or> p = ''*'' \<or> p = [])
        (Split name (CHR ''.'')) (Split pattern (CHR ''.'')))"

section \<open>Code of other packages\<close>

text \<open>
  What \<open>ServerConfig\<close> calls in code that lies outside its file is a parameter of the
  embedding.

  The package \<open>scheduling\<close>: \<open>RandomScheduling\<close> is the object
  \<open>&scheduling.RandomScheduling{}\<close>, the default algorithm with no candidate added.

  Modelled from the spec: \<open>FindSchedulingType\<close>, the lookup in the registry of scheduling
  algorithms by code, which gives the fresh instance of the descriptor found, and nil for
  a code that is not registered.
\<close>

record ('v, 's) scheduling =
  RandomScheduling :: "('v, 's) SchedulingInterface"
  FindSchedulingType :: "string \<Rightarrow> ('v, 's) SchedulingInterface option"

text \<open>
  The validators of the sub-configurations, the loader of cache policies and the
  constructor of the API configuration. A validator may write to its receiver, so it
  returns the receiver with the error (\<open>None\<close> is a nil error).
  \<open>NewCachePolicyFromFile\<close> gives nil for a name that it cannot resolve.
\<close>

record ('h, 'ssl, 'pol, 'api) collaborators =
  SSLConfig_Validate :: "'ssl \<Rightarrow> error option \<times> 'ssl"
  ServerBackendConfig_Validate :: "ServerBackendConfig \<Rightarrow> error option \<times> ServerBackendConfig"
  LocationConfig_Validate :: "LocationConfig \<Rightarrow> error option \<times> LocationConfig"
  ValidateFastcgi :: "FastcgiList \<Rightarrow> error option \<times> FastcgiList"
  ValidateRewriteRules :: "RewriteList \<Rightarrow> error option \<times> RewriteList"
  ValidateHeaders :: "'h \<Rightarrow> error option \<times> 'h"
  NewCachePolicyFromFile :: "string \<Rightarrow> 'pol option"
  CachePolicy_Validate :: "'pol \<Rightarrow> error option \<times> 'pol"
  NewAPIConfig :: 'api
  APIConfig_Validate :: "'api \<Rightarrow> error option \<times> 'api"

section \<open>Scheduling\<close>

text \<open>Method calls on a scheduling object: the method runs on the object's state.\<close>

definition callAdd ::
  "('v, 's) SchedulingInterface \<Rightarrow> ServerBackendConfig \<Rightarrow> ('v, 's) SchedulingInterface" where
  "callAdd obj backend = obj\<lparr>state := Add obj backend (state obj)\<rparr>"

definition callStart :: "('v, 's) SchedulingInterface \<Rightarrow> ('v, 's) SchedulingInterface" where
  "callStart obj = obj\<lparr>state := Start obj (state obj)\<rparr>"

definition callNext ::
  "('v, 's) SchedulingInterface \<Rightarrow> 'v Map option \<Rightarrow>
   ServerBackendConfig option \<times> ('v, 's) SchedulingInterface" where
  "callNext obj options =
     (case Next obj options (state obj) of
        (candidate, s) \<Rightarrow> (candidate, obj\<lparr>state := s\<rparr>))"

text \<open>The loop of \<open>SetupScheduling\<close> over \<open>this.Backends\<close>.\<close>

fun addBackends ::
  "bool \<Rightarrow> ServerBackendConfig list \<Rightarrow> ('v, 's) SchedulingInterface \<Rightarrow>
   ('v, 's) SchedulingInterface" where
  "addBackends isBackup [] obj = obj"
| "addBackends isBackup (backend # backends) obj =
     (if ServerBackendConfig.On backend \<and> \<not> IsDown backend then
        (if isBackup \<and> IsBackup backend then
           addBackends isBackup backends (callAdd obj backend)
         else if \<not> isBackup \<and> \<not> IsBackup backend then
           addBackends isBackup backends (callAdd obj backend)
         else addBackends isBackup backends obj)
      else addBackends isBackup backends obj)"

text \<open>
  The choice of the algorithm in \<open>SetupScheduling\<close>: the new value of \<open>this.Scheduling\<close>
  and the object chosen.
\<close>

definition chooseScheduling ::
  "('v, 's) scheduling \<Rightarrow> 'v SchedulingConfig option \<Rightarrow>
   'v SchedulingConfig option \<times> ('v, 's) SchedulingInterface" where
  "chooseScheduling pkg config =
     (case config of
        None \<Rightarrow> (None, RandomScheduling pkg)
      | Some c \<Rightarrow>
          (case FindSchedulingType pkg (Code c) of
             None \<Rightarrow> (None, RandomScheduling pkg)
           | Some instance \<Rightarrow> (Some c, instance)))"

definition SetupScheduling ::
  "('v, 's) scheduling \<Rightarrow> bool \<Rightarrow> ('h, 'ssl, 'pol, 'api, 'v, 's) ServerConfig \<Rightarrow> ('h, 'ssl, 'pol, 'api, 'v, 's) ServerConfig" where
  "SetupScheduling pkg isBackup this =
     (case chooseScheduling pkg (Scheduling this) of
        (config, obj) \<Rightarrow>
          this\<lparr> schedulingIsBackup := isBackup,
                Scheduling := config,
                schedulingObject :=
                  Some (callStart (addBackends isBackup (ServerConfig.Backends this) obj)) \<rparr>)"

text \<open>
  The loop \<open>for k, v := range this.Scheduling.Options { options[k] = v }\<close> of
  \<open>NextBackend\<close>. The keys of a map are distinct, so the order of the iteration does not
  show in the result. With no entry to copy the caller's map is not touched, be it nil.
\<close>

definition mergeOptions ::
  "'v SchedulingConfig option \<Rightarrow> 'v Map option \<Rightarrow> panic + 'v Map option" where
  "mergeOptions config options =
     (case config of
        None \<Rightarrow> Inr options
      | Some c \<Rightarrow>
          (if Options c = Map.empty then Inr options
           else (case options of
                   None \<Rightarrow> Inl AssignmentToEntryInNilMap
                 | Some m \<Rightarrow> Inr (Some (m ++ Options c)))))"

text \<open>
  The rest of \<open>NextBackend\<close>, from \<open>candidate := this.schedulingObject.Next(options)\<close> on:
  the candidate, with the server and the caller's map as the call leaves them. A method
  call on a nil \<open>schedulingObject\<close> would panic.
\<close>

definition nextCandidate ::
  "('v, 's) scheduling \<Rightarrow> ('h, 'ssl, 'pol, 'api, 'v, 's) ServerConfig \<Rightarrow> ('v, 's) SchedulingInterface \<Rightarrow> 'v Map option \<Rightarrow>
   panic + (ServerBackendConfig option \<times> ('h, 'ssl, 'pol, 'api, 'v, 's) ServerConfig \<times> 'v Map option)" where
  "nextCandidate pkg this obj options =
     (case callNext obj options of
        (Some candidate, obj1) \<Rightarrow>
          Inr (Some candidate, this\<lparr>schedulingObject := Some obj1\<rparr>, options)
      | (None, obj1) \<Rightarrow>
          (if \<not> schedulingIsBackup this then
             (let this2 = SetupScheduling pkg True (this\<lparr>schedulingObject := Some obj1\<rparr>)
              in case schedulingObject this2 of
                   None \<Rightarrow> Inl NilPointerDereference
                 | Some obj2 \<Rightarrow>
                     (case callNext obj2 options of
                        (candidate2, obj3) \<Rightarrow>
                          Inr (candidate2, this2\<lparr>schedulingObject := Some obj3\<rparr>, options)))
           else Inr (None, this\<lparr>schedulingObject := Some obj1\<rparr>, options)))"

definition NextBackend ::
  "('v, 's) scheduling \<Rightarrow> ('h, 'ssl, 'pol, 'api, 'v, 's) ServerConfig \<Rightarrow> 'v Map option \<Rightarrow>
   panic + (ServerBackendConfig option \<times> ('h, 'ssl, 'pol, 'api, 'v, 's) ServerConfig \<times> 'v Map option)" where
  "NextBackend pkg this options =
     (case schedulingObject this of
        None \<Rightarrow> Inr (None, this, options)
      | Some obj \<Rightarrow>
          (case mergeOptions (Scheduling this) options of
             Inl p \<Rightarrow> Inl p
           | Inr options1 \<Rightarrow> nextCandidate pkg this obj options1))"

section \<open>Validation\<close>

text \<open>A step of \<open>Validate\<close> gives the error, if any, and the server as the step leaves it.\<close>

fun runSteps :: "('a \<Rightarrow> error option \<times> 'a) list \<Rightarrow> 'a \<Rightarrow> error option \<times> 'a" where
  "runSteps [] a = (None, a)"
| "runSteps (f # fs) a =
     (case f a of
        (Some err, a1) \<Rightarrow> (Some err, a1)
      | (None, a1) \<Rightarrow> runSteps fs a1)"

text \<open>A loop that validates the elements of a list in turn and returns at the first error.\<close>

fun validateEach :: "('a \<Rightarrow> error option \<times> 'a) \<Rightarrow> 'a list \<Rightarrow> error option \<times> 'a list" where
  "validateEach v [] = (None, [])"
| "validateEach v (x # xs) =
     (case v x of
        (Some err, x1) \<Rightarrow> (Some err, x1 # xs)
      | (None, x1) \<Rightarrow> (case validateEach v xs of (r, xs1) \<Rightarrow> (r, x1 # xs1)))"

definition validateSSL ::
  "('h, 'ssl, 'pol, 'api) collaborators \<Rightarrow> ('h, 'ssl, 'pol, 'api, 'v, 's) ServerConfig \<Rightarrow> error option \<times> ('h, 'ssl, 'pol, 'api, 'v, 's) ServerConfig" where
  "validateSSL env this =
     (case SSL this of
        None \<Rightarrow> (None, this)
      | Some ssl \<Rightarrow>
          (case SSLConfig_Validate env ssl of (err, ssl1) \<Rightarrow> (err, this\<lparr>SSL := Some ssl1\<rparr>)))"

definition validateBackends ::
  "('h, 'ssl, 'pol, 'api) collaborators \<Rightarrow> ('h, 'ssl, 'pol, 'api, 'v, 's) ServerConfig \<Rightarrow> error option \<times> ('h, 'ssl, 'pol, 'api, 'v, 's) ServerConfig" where
  "validateBackends env this =
     (case validateEach (ServerBackendConfig_Validate env) (ServerConfig.Backends this) of
        (err, backends) \<Rightarrow> (err, this\<lparr>ServerConfig.Backends := backends\<rparr>))"

definition validateScheduling ::
  "('v, 's) scheduling \<Rightarrow> ('h, 'ssl, 'pol, 'api, 'v, 's) ServerConfig \<Rightarrow> error option \<times> ('h, 'ssl, 'pol, 'api, 'v, 's) ServerConfig" where
  "validateScheduling pkg this = (None, SetupScheduling pkg False this)"

definition validateLocations ::
  "('h, 'ssl, 'pol, 'api) collaborators \<Rightarrow> ('h, 'ssl, 'pol, 'api, 'v, 's) ServerConfig \<Rightarrow> error option \<times> ('h, 'ssl, 'pol, 'api, 'v, 's) ServerConfig" where
  "validateLocations env this =
     (case validateEach (LocationConfig_Validate env) (Locations this) of
        (err, locations) \<Rightarrow> (err, this\<lparr>Locations := locations\<rparr>))"

definition validateFastcgi ::
  "('h, 'ssl, 'pol, 'api) collaborators \<Rightarrow> ('h, 'ssl, 'pol, 'api, 'v, 's) ServerConfig \<Rightarrow> error option \<times> ('h, 'ssl, 'pol, 'api, 'v, 's) ServerConfig" where
  "validateFastcgi env this =
     (case ValidateFastcgi env (ServerConfig.FastcgiList this) of
        (err, l) \<Rightarrow> (err, this\<lparr>ServerConfig.FastcgiList := l\<rparr>))"

definition validateRewriteRules ::
  "('h, 'ssl, 'pol, 'api) collaborators \<Rightarrow> ('h, 'ssl, 'pol, 'api, 'v, 's) ServerConfig \<Rightarrow> error option \<times> ('h, 'ssl, 'pol, 'api, 'v, 's) ServerConfig" where
  "validateRewriteRules env this =
     (case ValidateRewriteRules env (ServerConfig.RewriteList this) of
        (err, l) \<Rightarrow> (err, this\<lparr>ServerConfig.RewriteList := l\<rparr>))"

definition validateHeaders ::
  "('h, 'ssl, 'pol, 'api) collaborators \<Rightarrow> ('h, 'ssl, 'pol, 'api, 'v, 's) ServerConfig \<Rightarrow> error option \<times> ('h, 'ssl, 'pol, 'api, 'v, 's) ServerConfig" where
  "validateHeaders env this =
     (case ValidateHeaders env (HeaderList this) of
        (err, l) \<Rightarrow> (err, this\<lparr>HeaderList := l\<rparr>))"

text \<open>
  The cache policy. When \<open>NewCachePolicyFromFile\<close> gives nil the source goes on to the
  next step.
\<close>

definition validateCachePolicy ::
  "('h, 'ssl, 'pol, 'api) collaborators \<Rightarrow> ('h, 'ssl, 'pol, 'api, 'v, 's) ServerConfig \<Rightarrow> error option \<times> ('h, 'ssl, 'pol, 'api, 'v, 's) ServerConfig" where
  "validateCachePolicy env this =
     (if length (CachePolicy this) > 0 then
        (case NewCachePolicyFromFile env (CachePolicy this) of
           None \<Rightarrow> (None, this)
         | Some policy \<Rightarrow>
             (case CachePolicy_Validate env policy of
                (Some err, policy1) \<Rightarrow> (Some err, this)
              | (None, policy1) \<Rightarrow> (None, this\<lparr>cachePolicy := Some policy1\<rparr>)))
      else (None, this))"

definition validateAPI ::
  "('h, 'ssl, 'pol, 'api) collaborators \<Rightarrow> ('h, 'ssl, 'pol, 'api, 'v, 's) ServerConfig \<Rightarrow> error option \<times> ('h, 'ssl, 'pol, 'api, 'v, 's) ServerConfig" where
  "validateAPI env this =
     (case APIConfig_Validate env (case API this of None \<Rightarrow> NewAPIConfig env | Some a \<Rightarrow> a) of
        (err, a1) \<Rightarrow> (err, this\<lparr>API := Some a1\<rparr>))"

text \<open>The steps of \<open>Validate\<close> that come before the cache policy, in the order of the source.\<close>

definition stepsBeforeCachePolicy ::
  "('v, 's) scheduling \<Rightarrow> ('h, 'ssl, 'pol, 'api) collaborators \<Rightarrow>
   (('h, 'ssl, 'pol, 'api, 'v, 's) ServerConfig \<Rightarrow> error option \<times> ('h, 'ssl, 'pol, 'api, 'v, 's) ServerConfig) list" where
  "stepsBeforeCachePolicy pkg env =
     [validateSSL env, validateBackends env, validateScheduling pkg, validateLocations env,
      validateFastcgi env, validateRewriteRules env, validateHeaders env]"

definition Validate ::
  "('v, 's) scheduling \<Rightarrow> ('h, 'ssl, 'pol, 'api) collaborators \<Rightarrow> ('h, 'ssl, 'pol, 'api, 'v, 's) ServerConfig \<Rightarrow>
   error option \<times> ('h, 'ssl, 'pol, 'api, 'v, 's) ServerConfig" where
  "Validate pkg env this =
     runSteps (stepsBeforeCachePolicy pkg env @ [validateCachePolicy env, validateAPI env]) this"

section \<open>Finding the owner of a header list\<close>

text \<open>
  \<open>FindLocation\<close>: the first location with the id, validated in place before it is
  returned; the error of that validation is dropped.
\<close>

fun findLocation ::
  "(LocationConfig \<Rightarrow> error option \<times> LocationConfig) \<Rightarrow> string \<Rightarrow> LocationConfig list \<Rightarrow>
   LocationConfig option \<times> LocationConfig list" where
  "findLocation validate locationId [] = (None, [])"
| "findLocation validate locationId (location # locations) =
     (if LocationConfig.Id location = locationId then
        (case validate location of (err, location1) \<Rightarrow> (Some location1, location1 # locations))
      else (case findLocation validate locationId locations of
              (found, locations1) \<Rightarrow> (found, location # locations1)))"

definition FindLocation ::
  "('h, 'ssl, 'pol, 'api) collaborators \<Rightarrow> ('h, 'ssl, 'pol, 'api, 'v, 's) ServerConfig \<Rightarrow> string \<Rightarrow> LocationConfig option \<times> ('h, 'ssl, 'pol, 'api, 'v, 's) ServerConfig" where
  "FindLocation env this locationId =
     (case findLocation (LocationConfig_Validate env) locationId (Locations this) of
        (found, locations) \<Rightarrow> (found, this\<lparr>Locations := locations\<rparr>))"

text \<open>The scan of \<open>FindBackend\<close> over a list of backends.\<close>

fun findBackend :: "string \<Rightarrow> ServerBackendConfig list \<Rightarrow> ServerBackendConfig option" where
  "findBackend backendId [] = None"
| "findBackend backendId (backend # backends) =
     (if ServerBackendConfig.Id backend = backendId then Some backend
      else findBackend backendId backends)"

definition FindBackend :: "('h, 'ssl, 'pol, 'api, 'v, 's) ServerConfig \<Rightarrow> string \<Rightarrow> ServerBackendConfig option" where
  "FindBackend this backendId = findBackend backendId (ServerConfig.Backends this)"

text \<open>
  Modelled from the spec: the finders of the embedded lists and of a location,
  \<open>RewriteList.FindRewriteRule\<close>, \<open>FastcgiList.FindFastcgi\<close> and
  \<open>LocationConfig.FindBackend\<close>, which the file of \<open>ServerConfig\<close> calls and does not
  define: linear scans by id that give the first match, or nil.
\<close>

fun findRewriteRule :: "string \<Rightarrow> RewriteRule list \<Rightarrow> RewriteRule option" where
  "findRewriteRule rewriteId [] = None"
| "findRewriteRule rewriteId (rewrite # rewrites) =
     (if RewriteRule.Id rewrite = rewriteId then Some rewrite
      else findRewriteRule rewriteId rewrites)"

definition FindRewriteRule :: "RewriteList \<Rightarrow> string \<Rightarrow> RewriteRule option" where
  "FindRewriteRule this rewriteId = findRewriteRule rewriteId (Rewrite this)"

fun findFastcgi :: "string \<Rightarrow> FastcgiConfig list \<Rightarrow> FastcgiConfig option" where
  "findFastcgi fastcgiId [] = None"
| "findFastcgi fastcgiId (fastcgi # fastcgis) =
     (if FastcgiConfig.Id fastcgi = fastcgiId then Some fastcgi
      else findFastcgi fastcgiId fastcgis)"

definition FindFastcgi :: "FastcgiList \<Rightarrow> string \<Rightarrow> FastcgiConfig option" where
  "FindFastcgi this fastcgiId = findFastcgi fastcgiId (Fastcgi this)"

definition LocationConfig_FindBackend ::
  "LocationConfig \<Rightarrow> string \<Rightarrow> ServerBackendConfig option" where
  "LocationConfig_FindBackend this backendId =
     findBackend backendId (LocationConfig.Backends this)"

text \<open>
  The object that \<open>FindHeaderList\<close> returns as a \<open>shared.HeaderListInterface\<close>: the
  server itself, a location, a backend, a rewrite rule or a fastcgi target.
\<close>

datatype HeaderListInterface =
    OfServer
  | OfLocation LocationConfig
  | OfBackend ServerBackendConfig
  | OfRewrite RewriteRule
  | OfFastcgi FastcgiConfig

definition FindHeaderList ::
  "('h, 'ssl, 'pol, 'api) collaborators \<Rightarrow> ('h, 'ssl, 'pol, 'api, 'v, 's) ServerConfig \<Rightarrow>
   string \<Rightarrow> string \<Rightarrow> string \<Rightarrow> string \<Rightarrow> (error + HeaderListInterface) \<times> ('h, 'ssl, 'pol, 'api, 'v, 's) ServerConfig" where
  "FindHeaderList env this locationId backendId rewriteId fastcgiId =
     (if length rewriteId > 0 then
        (if length locationId > 0 then
           (case FindLocation env this locationId of
              (None, this1) \<Rightarrow> (Inl LocationNotFound, this1)
            | (Some location, this1) \<Rightarrow>
                (case FindRewriteRule (LocationConfig.RewriteList location) rewriteId of
                   None \<Rightarrow> (Inl RewriteNotFound, this1)
                 | Some rewrite \<Rightarrow> (Inr (OfRewrite rewrite), this1)))
         else
           (case FindRewriteRule (ServerConfig.RewriteList this) rewriteId of
              None \<Rightarrow> (Inl RewriteNotFound, this)
            | Some rewrite \<Rightarrow> (Inr (OfRewrite rewrite), this)))
      else if length fastcgiId > 0 then
        (if length locationId > 0 then
           (case FindLocation env this locationId of
              (None, this1) \<Rightarrow> (Inl LocationNotFound, this1)
            | (Some location, this1) \<Rightarrow>
                (case FindFastcgi (LocationConfig.FastcgiList location) fastcgiId of
                   None \<Rightarrow> (Inl FastcgiNotFound, this1)
                 | Some fastcgi \<Rightarrow> (Inr (OfFastcgi fastcgi), this1)))
         else
           (case FindFastcgi (ServerConfig.FastcgiList this) fastcgiId of
              None \<Rightarrow> (Inl FastcgiNotFound, this)
            | Some fastcgi \<Rightarrow> (Inr (OfFastcgi fastcgi), this)))
      else if length backendId > 0 then
        (if length locationId > 0 then
           (case FindLocation env this locationId of
              (None, this1) \<Rightarrow> (Inl LocationNotFound, this1)
            | (Some location, this1) \<Rightarrow>
                (case LocationConfig_FindBackend location backendId of
                   None \<Rightarrow> (Inl BackendNotFound, this1)
                 | Some backend \<Rightarrow> (Inr (OfBackend backend), this1)))
         else
           (case FindBackend this backendId of
              None \<Rightarrow> (Inl BackendNotFound, this)
            | Some backend \<Rightarrow> (Inr (OfBackend backend), this)))
      else if length locationId > 0 then
        (case FindLocation env this locationId of
           (None, this1) \<Rightarrow> (Inl LocationNotFound, this1)
         | (Some location, this1) \<Rightarrow> (Inr (OfLocation location), this1))
      else (Inr OfServer, this))"

section \<open>Example configurations\<close>

text \<open>
  Inputs on which the theorems below are evaluated. \<open>firstCandidate\<close> is an algorithm
  that keeps the candidates in the order of their addition and hands out the first one;
  \<open>byOption\<close> hands out the candidate whose id is the value of the option \<open>id\<close>. In
  \<open>examplePackage\<close> the default algorithm is \<open>firstCandidate\<close> and the registry knows the
  one code \<open>byOption\<close>. The collaborators \<open>acceptAll\<close> accept every sub-configuration
  and leave it as it is; they resolve the cache policies \<open>good\<close> and \<open>bad\<close>, and the
  second of them does not validate.
\<close>

abbreviation plainServer ::
  "(unit, unit, string, unit, string, ServerBackendConfig list) ServerConfig" where
  "plainServer \<equiv> zeroServerConfig ()"

abbreviation backend :: "string \<Rightarrow> bool \<Rightarrow> bool \<Rightarrow> bool \<Rightarrow> ServerBackendConfig" where
  "backend i on down backup \<equiv>
     \<lparr> ServerBackendConfig.Id = i, On = on, IsDown = down, IsBackup = backup \<rparr>"

abbreviation firstCandidate :: "(string, ServerBackendConfig list) SchedulingInterface" where
  "firstCandidate \<equiv>
     \<lparr> Add = (\<lambda>candidate s. s @ [candidate]),
       Start = (\<lambda>s. s),
       Next = (\<lambda>options s. (case s of [] \<Rightarrow> None | candidate # candidates \<Rightarrow> Some candidate, s)),
       state = [] \<rparr>"

abbreviation byOption :: "(string, ServerBackendConfig list) SchedulingInterface" where
  "byOption \<equiv>
     \<lparr> Add = (\<lambda>candidate s. s @ [candidate]),
       Start = (\<lambda>s. s),
       Next = (\<lambda>options s.
         (case options of
            None \<Rightarrow> None
          | Some m \<Rightarrow> (case m ''id'' of None \<Rightarrow> None | Some v \<Rightarrow> findBackend v s), s)),
       state = [] \<rparr>"

abbreviation examplePackage :: "(string, ServerBackendConfig list) scheduling" where
  "examplePackage \<equiv>
     \<lparr> RandomScheduling = firstCandidate,
       FindSchedulingType = (\<lambda>code. if code = ''byOption'' then Some byOption else None) \<rparr>"

abbreviation byOptionConfig :: "string SchedulingConfig" where
  "byOptionConfig \<equiv> \<lparr> Code = ''byOption'', Options = [''id'' \<mapsto> ''b2''] \<rparr>"

abbreviation twoBackends ::
  "(unit, unit, string, unit, string, ServerBackendConfig list) ServerConfig" where
  "twoBackends \<equiv>
     SetupScheduling examplePackage False
       (plainServer\<lparr> ServerConfig.Backends :=
                       [backend ''b1'' True False False, backend ''b2'' True False False],
                     Scheduling := Some byOptionConfig \<rparr>)"

abbreviation onlyBackup ::
  "(unit, unit, string, unit, string, ServerBackendConfig list) ServerConfig" where
  "onlyBackup \<equiv>
     SetupScheduling examplePackage False
       (plainServer\<lparr> ServerConfig.Backends :=
                       [backend ''p1'' True True False, backend ''b1'' True False True] \<rparr>)"

abbreviation unknownCode ::
  "(unit, unit, string, unit, string, ServerBackendConfig list) ServerConfig" where
  "unknownCode \<equiv>
     plainServer\<lparr> ServerConfig.Backends :=
                    [backend ''p1'' True False False, backend ''b1'' True False True],
                  Scheduling := Some \<lparr> Code = ''does-not-exist'', Options = Map.empty \<rparr> \<rparr>"

abbreviation acceptAll :: "(unit, unit, string, unit) collaborators" where
  "acceptAll \<equiv>
     \<lparr> SSLConfig_Validate = Pair None,
       ServerBackendConfig_Validate = Pair None,
       LocationConfig_Validate = Pair None,
       ValidateFastcgi = Pair None,
       ValidateRewriteRules = Pair None,
       ValidateHeaders = Pair None,
       NewCachePolicyFromFile =
         (\<lambda>name. if name = ''good'' then Some ''good policy''
                  else if name = ''bad'' then Some ''bad policy'' else None),
       CachePolicy_Validate =
         (\<lambda>policy. (if policy = ''bad policy'' then Some (ValidationError ''bad policy'') else None,
                     policy)),
       NewAPIConfig = (),
       APIConfig_Validate = Pair None \<rparr>"

abbreviation location1 :: LocationConfig where
  "location1 \<equiv>
     \<lparr> LocationConfig.FastcgiList = \<lparr> Fastcgi = [\<lparr> FastcgiConfig.Id = ''F1'' \<rparr>] \<rparr>,
       LocationConfig.RewriteList = \<lparr> Rewrite = [\<lparr> RewriteRule.Id = ''R1'' \<rparr>] \<rparr>,
       LocationConfig.Id = ''L1'',
       LocationConfig.Backends = [backend ''B1'' True False True] \<rparr>"

abbreviation withLocation ::
  "(unit, unit, string, unit, string, ServerBackendConfig list) ServerConfig" where
  "withLocation \<equiv>
     plainServer\<lparr> ServerConfig.Backends := [backend ''B1'' True False False],
                  Locations := [location1] \<rparr>"

section \<open>Properties of \<open>MatchName\<close>\<close>

text \<open>
  The inner loop decides the segment-wise match of the specification whenever it is
  entered, that is, on lists of the same length.
\<close>

lemma matchPieces_drop:
  "length pieces1 = index + length pieces2 \<Longrightarrow>
   matchPieces pieces1 index pieces2 =
     list_all2 (\<lambda>s p. s = p \<or> p = ''*'' \<or> p = []) (drop index pieces1) pieces2"
proof (induction pieces2 arbitrary: index)
  case Nil
  then show ?case by simp
next
  case (Cons piece pieces2)
  then have lt: "index < length pieces1" by simp
  have step: "drop index pieces1 = pieces1 ! index # drop (Suc index) pieces1"
    using lt by (simp add: Cons_nth_drop_Suc)
  have "length pieces1 = Suc index + length pieces2" using Cons.prems by simp
  then have ih: "matchPieces pieces1 (Suc index) pieces2 =
     list_all2 (\<lambda>s p. s = p \<or> p = ''*'' \<or> p = []) (drop (Suc index) pieces1) pieces2"
    by (rule Cons.IH)
  show ?case by (simp only: matchPieces.simps step ih list_all2_Cons) auto
qed

lemma matchPieces_segmentwise:
  "length (Split name (CHR ''.'')) = length (Split pattern (CHR ''.'')) \<Longrightarrow>
   matchPieces (Split name (CHR ''.'')) 0 (Split pattern (CHR ''.'')) = segmentwise name pattern"
  using matchPieces_drop [of "Split name (CHR ''.'')" 0 "Split pattern (CHR ''.'')"]
  by (simp add: segmentwise_def)

lemma segmentwise_length:
  "segmentwise name pattern \<Longrightarrow>
   length (Split name (CHR ''.'')) = length (Split pattern (CHR ''.''))"
  by (simp add: segmentwise_def)

text \<open>One turn of the outer loop on a pattern that is neither empty nor the name itself.\<close>

lemma matchNames_step:
  "testName \<noteq> [] \<Longrightarrow> name \<noteq> testName \<Longrightarrow>
   matchNames name (Split name (CHR ''.'')) (testName # names) =
     (if segmentwise name testName then ([], True)
      else matchNames name (Split name (CHR ''.'')) names)"
  using matchPieces_segmentwise [of name testName] segmentwise_length [of name testName]
  by (auto simp: Let_def)

text \<open>
  Patterns that are empty or do not match are passed over; the first pattern that matches
  segment-wise, the name not being among the patterns before it, ends the loop with the
  empty string.
\<close>

lemma matchNames_skip:
  "name \<notin> set pre \<Longrightarrow> \<forall>p\<in>set pre. p = [] \<or> \<not> segmentwise name p \<Longrightarrow>
   matchNames name (Split name (CHR ''.'')) (pre @ rest) =
     matchNames name (Split name (CHR ''.'')) rest"
proof (induction pre)
  case Nil
  then show ?case by simp
next
  case (Cons p pre)
  show ?case
  proof (cases "p = []")
    case True
    then show ?thesis using Cons by simp
  next
    case False
    then show ?thesis using Cons matchNames_step [of p name "pre @ rest"] by auto
  qed
qed

lemma matchNames_wildcard:
  "name \<notin> set pre \<Longrightarrow> \<exists>p\<in>set pre. p \<noteq> [] \<and> segmentwise name p \<Longrightarrow>
   matchNames name (Split name (CHR ''.'')) (pre @ rest) = ([], True)"
proof (induction pre)
  case Nil
  then show ?case by simp
next
  case (Cons p pre)
  show ?case
  proof (cases "p = []")
    case True
    then show ?thesis using Cons by simp
  next
    case False
    then show ?thesis using Cons matchNames_step [of p name "pre @ rest"] by auto
  qed
qed

text \<open>
  C4 as the specification states it fails: listed after a wildcard pattern that matches
  it, a name that is configured verbatim is reported with the empty string, since the
  patterns are tried in their order and the first match returns.
\<close>

theorem MatchName_reflexive_counterexample:
  "''www.a.com'' \<noteq> [] \<and>
   ''www.a.com'' \<in> set (Name (plainServer\<lparr>Name := [''*.a.com'', ''www.a.com'']\<rparr>)) \<and>
   MatchName (plainServer\<lparr>Name := [''*.a.com'', ''www.a.com'']\<rparr>) ''www.a.com'' = ([], True)"
  by (simp add: MatchName_def zeroServerConfig_def)

text \<open>
  C4, amended: for every non-empty name that is present verbatim among the \<open>Name\<close>
  patterns, \<open>MatchName\<close> returns \<open>matched = true\<close>; \<open>matchedPattern\<close> is that name
  unless a non-empty pattern listed before the first occurrence of the name matches it
  segment-wise, and then it is the empty string.
\<close>

theorem MatchName_verbatim:
  assumes "name \<noteq> []" and "Name this = pre @ name # post" and "name \<notin> set pre"
  shows "MatchName this name =
    (if \<exists>p\<in>set pre. p \<noteq> [] \<and> segmentwise name p then ([], True) else (name, True))"
proof (cases "\<exists>p\<in>set pre. p \<noteq> [] \<and> segmentwise name p")
  case True
  then show ?thesis
    using assms matchNames_wildcard [of name pre "name # post"] by (simp add: MatchName_def)
next
  case False
  then have "\<forall>p\<in>set pre. p = [] \<or> \<not> segmentwise name p" by blast
  then show ?thesis
    using False assms matchNames_skip [of name pre "name # post"] by (simp add: MatchName_def)
qed

theorem MatchName_verbatim_witness:
  "''www.a.com'' \<noteq> [] \<and>
   Name (plainServer\<lparr>Name := [''*.b.com'', [], ''www.a.com'', ''*.a.com'']\<rparr>) =
     [''*.b.com'', []] @ ''www.a.com'' # [''*.a.com''] \<and>
   ''www.a.com'' \<notin> set [''*.b.com'', []] \<and>
   MatchName (plainServer\<lparr>Name := [''*.b.com'', [], ''www.a.com'', ''*.a.com'']\<rparr>) ''www.a.com'' =
     (''www.a.com'', True)"
  using MatchName_verbatim [of "''www.a.com''"
      "plainServer\<lparr>Name := [''*.b.com'', [], ''www.a.com'', ''*.a.com'']\<rparr>"
      "[''*.b.com'', []]" "[''*.a.com'']"]
  by (simp add: zeroServerConfig_def segmentwise_def)

text \<open>
  C9 as the specification states it fails on the two guards of the source: the empty
  name matches nothing, though as one empty segment it matches the pattern \<open>*\<close>
  segment-wise; and an empty pattern is skipped, though as one empty segment it matches
  every name without a dot.
\<close>

theorem MatchName_wildcard_empty_counterexample:
  "[] \<notin> set (Name (plainServer\<lparr>Name := [''*'']\<rparr>)) \<and>
   segmentwise [] ''*'' \<and>
   MatchName (plainServer\<lparr>Name := [''*'']\<rparr>) [] = ([], False) \<and>
   ''localhost'' \<notin> set (Name (plainServer\<lparr>Name := [[]]\<rparr>)) \<and>
   segmentwise ''localhost'' [] \<and>
   MatchName (plainServer\<lparr>Name := [[]]\<rparr>) ''localhost'' = ([], False)"
  by (simp add: MatchName_def zeroServerConfig_def segmentwise_def)

text \<open>
  C9, amended: for every non-empty name that is not equal to any configured pattern and
  matches some non-empty pattern segment-wise, \<open>MatchName\<close> returns \<open>matched = true\<close> and
  the empty string as \<open>matchedPattern\<close>.
\<close>

theorem MatchName_wildcard:
  assumes "name \<noteq> []" and "name \<notin> set (Name this)"
    and "\<exists>p\<in>set (Name this). p \<noteq> [] \<and> segmentwise name p"
  shows "MatchName this name = ([], True)"
  using assms matchNames_wildcard [of name "Name this" "[]"] by (simp add: MatchName_def)

theorem MatchName_wildcard_witness:
  "''www.a.com'' \<noteq> [] \<and>
   ''www.a.com'' \<notin> set (Name (plainServer\<lparr>Name := [''a.com'', ''*.a.com'']\<rparr>)) \<and>
   ''*.a.com'' \<noteq> [] \<and> segmentwise ''www.a.com'' ''*.a.com'' \<and>
   MatchName (plainServer\<lparr>Name := [''a.com'', ''*.a.com'']\<rparr>) ''www.a.com'' = ([], True)"
  using MatchName_wildcard [of "''www.a.com''" "plainServer\<lparr>Name := [''a.com'', ''*.a.com'']\<rparr>"]
  by (simp add: zeroServerConfig_def segmentwise_def)

section \<open>Properties of the scheduling engine\<close>

text \<open>The loop of \<open>SetupScheduling\<close> adds the enabled backends of the tier, in their order.\<close>

lemma addBackends_foldl:
  "addBackends isBackup backends obj =
     foldl callAdd obj
       (filter (\<lambda>b. ServerBackendConfig.On b \<and> \<not> IsDown b \<and> IsBackup b = isBackup) backends)"
  by (induction backends arbitrary: obj) auto

text \<open>Adding candidates one after the other runs the object's \<open>Add\<close> on its state.\<close>

lemma foldl_callAdd:
  "foldl callAdd obj backends =
     obj\<lparr>state := foldl (\<lambda>s backend. Add obj backend s) (state obj) backends\<rparr>"
proof (induction backends arbitrary: obj)
  case Nil
  then show ?case by simp
next
  case (Cons backend backends)
  show ?case by (simp add: Cons.IH [of "callAdd obj backend"]) (simp add: callAdd_def)
qed

lemma chooseScheduling_again:
  "chooseScheduling pkg (fst (chooseScheduling pkg config)) = chooseScheduling pkg config"
  by (simp add: chooseScheduling_def split: option.splits)

lemma chooseScheduling_explicit:
  "chooseScheduling pkg config =
     ((case config of
         None \<Rightarrow> None
       | Some c \<Rightarrow> (case FindSchedulingType pkg (Code c) of None \<Rightarrow> None | Some instance \<Rightarrow> Some c)),
      (case config of
         None \<Rightarrow> RandomScheduling pkg
       | Some c \<Rightarrow>
           (case FindSchedulingType pkg (Code c) of
              None \<Rightarrow> RandomScheduling pkg
            | Some instance \<Rightarrow> instance)))"
  by (simp add: chooseScheduling_def split: option.splits)

lemma SetupScheduling_object:
  "schedulingObject (SetupScheduling pkg isBackup this) =
     Some (callStart (addBackends isBackup (ServerConfig.Backends this)
       (snd (chooseScheduling pkg (Scheduling this)))))"
  by (simp add: SetupScheduling_def split: prod.splits)

lemma SetupScheduling_fields:
  "schedulingIsBackup (SetupScheduling pkg isBackup this) = isBackup"
  "Scheduling (SetupScheduling pkg isBackup this) = fst (chooseScheduling pkg (Scheduling this))"
  "ServerConfig.Backends (SetupScheduling pkg isBackup this) = ServerConfig.Backends this"
  by (simp_all add: SetupScheduling_def split: prod.splits)

text \<open>\<open>SetupScheduling\<close> reads neither the object it replaces nor the flag it sets.\<close>

lemma SetupScheduling_forgets:
  "SetupScheduling pkg isBackup (this\<lparr>schedulingObject := x\<rparr>) = SetupScheduling pkg isBackup this"
  "SetupScheduling pkg isBackup (this\<lparr>schedulingIsBackup := y\<rparr>) = SetupScheduling pkg isBackup this"
  by (simp_all add: SetupScheduling_def split: prod.splits)

text \<open>\<open>SetupScheduling\<close> in terms of the methods of the algorithm chosen.\<close>

lemma SetupScheduling_explicit:
  "SetupScheduling pkg isBackup this =
     (let chosen =
        (case Scheduling this of
           None \<Rightarrow> RandomScheduling pkg
         | Some c \<Rightarrow>
             (case FindSchedulingType pkg (Code c) of
                None \<Rightarrow> RandomScheduling pkg
              | Some instance \<Rightarrow> instance))
      in this\<lparr> schedulingIsBackup := isBackup,
               Scheduling :=
                 (case Scheduling this of
                    None \<Rightarrow> None
                  | Some c \<Rightarrow>
                      (case FindSchedulingType pkg (Code c) of
                         None \<Rightarrow> None
                       | Some instance \<Rightarrow> Some c)),
               schedulingObject :=
                 Some (chosen\<lparr>state :=
                   Start chosen
                     (foldl (\<lambda>s backend. Add chosen backend s) (state chosen)
                        (filter (\<lambda>b. ServerBackendConfig.On b \<and> \<not> IsDown b \<and> IsBackup b = isBackup)
                           (ServerConfig.Backends this)))\<rparr>) \<rparr>)"
  by (simp add: SetupScheduling_def chooseScheduling_explicit addBackends_foldl foldl_callAdd
      callStart_def Let_def)

text \<open>
  C7: for every backend list and every tier \<open>isBackup\<close>, the object that
  \<open>SetupScheduling\<close> installs is the freshly selected algorithm (the instance that the
  registry gives for \<open>Scheduling.Code\<close>, the default algorithm when no code is configured
  or the code is not registered) whose state is the result of its \<open>Start\<close> hook, called
  after its \<open>Add\<close> was called, in the order of the list, on exactly the backends with
  \<open>On\<close> true, \<open>IsDown\<close> false and \<open>IsBackup\<close> equal to the tier. The object installed
  before is discarded: the result does not depend on it, and a second call builds the
  same state again from the current backends.
\<close>

theorem SetupScheduling_rebuilds:
  "(let chosen =
      (case Scheduling this of
         None \<Rightarrow> RandomScheduling pkg
       | Some c \<Rightarrow>
           (case FindSchedulingType pkg (Code c) of
              None \<Rightarrow> RandomScheduling pkg
            | Some instance \<Rightarrow> instance))
    in schedulingObject (SetupScheduling pkg isBackup this) =
         Some (chosen\<lparr>state :=
           Start chosen
             (foldl (\<lambda>s backend. Add chosen backend s) (state chosen)
                (filter (\<lambda>b. ServerBackendConfig.On b \<and> \<not> IsDown b \<and> IsBackup b = isBackup)
                   (ServerConfig.Backends this)))\<rparr>)) \<and>
   schedulingIsBackup (SetupScheduling pkg isBackup this) = isBackup \<and>
   SetupScheduling pkg isBackup (this\<lparr>schedulingObject := previous\<rparr>) =
     SetupScheduling pkg isBackup this \<and>
   SetupScheduling pkg isBackup (SetupScheduling pkg tier this) = SetupScheduling pkg isBackup this"
proof -
  obtain config obj where c: "chooseScheduling pkg (Scheduling this) = (config, obj)"
    by fastforce
  have c2: "chooseScheduling pkg config = (config, obj)"
    using chooseScheduling_again [of pkg "Scheduling this"] c by simp
  have again: "SetupScheduling pkg isBackup (SetupScheduling pkg tier this) =
      SetupScheduling pkg isBackup this"
    using c c2 by (simp add: SetupScheduling_def)
  have obj: "(let chosen =
      (case Scheduling this of
         None \<Rightarrow> RandomScheduling pkg
       | Some c \<Rightarrow>
           (case FindSchedulingType pkg (Code c) of
              None \<Rightarrow> RandomScheduling pkg
            | Some instance \<Rightarrow> instance))
    in schedulingObject (SetupScheduling pkg isBackup this) =
         Some (chosen\<lparr>state :=
           Start chosen
             (foldl (\<lambda>s backend. Add chosen backend s) (state chosen)
                (filter (\<lambda>b. ServerBackendConfig.On b \<and> \<not> IsDown b \<and> IsBackup b = isBackup)
                   (ServerConfig.Backends this)))\<rparr>))"
    by (simp add: SetupScheduling_explicit [of pkg isBackup this] Let_def)
  show ?thesis
    using again obj by (simp add: SetupScheduling_fields SetupScheduling_forgets)
qed

theorem SetupScheduling_rebuilds_witness:
  "map_option state (schedulingObject
     (SetupScheduling (examplePackage\<lparr>RandomScheduling := firstCandidate\<lparr>Start := rev\<rparr>\<rparr>) False
       (plainServer\<lparr>ServerConfig.Backends :=
          [backend ''p1'' True False False, backend ''b1'' True False True,
           backend ''p2'' True True False, backend ''p3'' False False False,
           backend ''p4'' True False False]\<rparr>))) =
     Some [backend ''p4'' True False False, backend ''p1'' True False False] \<and>
   map_option state (schedulingObject
     (SetupScheduling (examplePackage\<lparr>RandomScheduling := firstCandidate\<lparr>Start := rev\<rparr>\<rparr>) True
       (SetupScheduling (examplePackage\<lparr>RandomScheduling := firstCandidate\<lparr>Start := rev\<rparr>\<rparr>) False
         (plainServer\<lparr>ServerConfig.Backends :=
            [backend ''p1'' True False False, backend ''b1'' True False True,
             backend ''p2'' True True False, backend ''p3'' False False False,
             backend ''p4'' True False False]\<rparr>)))) =
     Some [backend ''b1'' True False True]"
  using SetupScheduling_rebuilds [where this = "plainServer\<lparr>ServerConfig.Backends :=
        [backend ''p1'' True False False, backend ''b1'' True False True,
         backend ''p2'' True True False, backend ''p3'' False False False,
         backend ''p4'' True False False]\<rparr>"
      and pkg = "examplePackage\<lparr>RandomScheduling := firstCandidate\<lparr>Start := rev\<rparr>\<rparr>"
      and isBackup = False and previous = None and tier = False]
    SetupScheduling_rebuilds [where this = "plainServer\<lparr>ServerConfig.Backends :=
        [backend ''p1'' True False False, backend ''b1'' True False True,
         backend ''p2'' True True False, backend ''p3'' False False False,
         backend ''p4'' True False False]\<rparr>"
      and pkg = "examplePackage\<lparr>RandomScheduling := firstCandidate\<lparr>Start := rev\<rparr>\<rparr>"
      and isBackup = True and previous = None and tier = False]
  by (simp add: zeroServerConfig_def Let_def)

text \<open>The merge of the options into a map that the caller supplies does not panic.\<close>

lemma mergeOptions_Some:
  "mergeOptions (Some c) (Some m) = Inr (Some (m ++ Options c))"
  by (simp add: mergeOptions_def)

text \<open>Once the algorithm is asked, \<open>NextBackend\<close> returns, and with the map it asked with.\<close>

lemma nextCandidate_returns: "\<exists>r. nextCandidate pkg this obj options = Inr r"
  by (simp add: nextCandidate_def Let_def SetupScheduling_object split: prod.splits option.splits)

lemma nextCandidate_options:
  "nextCandidate pkg this obj options = Inr (candidate, this1, options1) \<Longrightarrow> options1 = options"
  by (auto simp: nextCandidate_def Let_def SetupScheduling_object split: prod.splits option.splits if_splits)

text \<open>The three ways through the rest of \<open>NextBackend\<close>, by what \<open>Next\<close> answers.\<close>

lemma nextCandidate_found:
  "Next obj options (state obj) = (Some candidate, s1) \<Longrightarrow>
   nextCandidate pkg this obj options =
     Inr (Some candidate, this\<lparr>schedulingObject := Some (obj\<lparr>state := s1\<rparr>)\<rparr>, options)"
  by (simp add: nextCandidate_def callNext_def)

lemma nextCandidate_backup:
  "Next obj options (state obj) = (None, s1) \<Longrightarrow> schedulingIsBackup this \<Longrightarrow>
   nextCandidate pkg this obj options =
     Inr (None, this\<lparr>schedulingObject := Some (obj\<lparr>state := s1\<rparr>)\<rparr>, options)"
  by (simp add: nextCandidate_def callNext_def)

lemma nextCandidate_retry:
  "Next obj options (state obj) = (None, s1) \<Longrightarrow> \<not> schedulingIsBackup this \<Longrightarrow>
   schedulingObject (SetupScheduling pkg True this) = Some obj2 \<Longrightarrow>
   nextCandidate pkg this obj options =
     Inr (fst (Next obj2 options (state obj2)),
          (SetupScheduling pkg True this)
            \<lparr>schedulingObject := Some (obj2\<lparr>state := snd (Next obj2 options (state obj2))\<rparr>)\<rparr>,
          options)"
  by (simp add: nextCandidate_def callNext_def Let_def SetupScheduling_forgets split: prod.splits)

text \<open>
  The one panic of \<open>NextBackend\<close> is Go's assignment to an entry of a nil map: it needs
  an algorithm set up, a nil map from the caller and a static option to copy, and it
  happens in the loop that merges the options, before the algorithm is asked.
\<close>

lemma NextBackend_panics:
  "NextBackend pkg this options = Inl AssignmentToEntryInNilMap \<longleftrightarrow>
     schedulingObject this \<noteq> None \<and> options = None \<and>
     (\<exists>c. Scheduling this = Some c \<and> Options c \<noteq> Map.empty)"
proof (cases "schedulingObject this")
  case None
  then show ?thesis by (simp add: NextBackend_def)
next
  case (Some obj)
  show ?thesis
  proof (cases "mergeOptions (Scheduling this) options")
    case (Inl p)
    then show ?thesis
      using Some by (auto simp: NextBackend_def mergeOptions_def split: option.splits if_splits)
  next
    case (Inr o1)
    obtain r where r: "nextCandidate pkg this obj o1 = Inr r"
      using nextCandidate_returns by blast
    have "NextBackend pkg this options = Inr r"
      using Some Inr r by (simp add: NextBackend_def)
    moreover have "\<not> (options = None \<and> (\<exists>c. Scheduling this = Some c \<and> Options c \<noteq> Map.empty))"
      using Inr by (auto simp: mergeOptions_def split: option.splits if_splits)
    ultimately show ?thesis by simp
  qed
qed

lemma NextBackend_only_panic:
  "NextBackend pkg this options = Inl p \<Longrightarrow> p = AssignmentToEntryInNilMap"
proof (cases "schedulingObject this")
  case None
  assume "NextBackend pkg this options = Inl p"
  then show ?thesis using None by (simp add: NextBackend_def)
next
  case (Some obj)
  assume a: "NextBackend pkg this options = Inl p"
  show ?thesis
  proof (cases "mergeOptions (Scheduling this) options")
    case (Inl q)
    then have "q = AssignmentToEntryInNilMap"
      by (auto simp: mergeOptions_def split: option.splits if_splits)
    then show ?thesis using a Some Inl by (simp add: NextBackend_def)
  next
    case (Inr o1)
    obtain r where r: "nextCandidate pkg this obj o1 = Inr r"
      using nextCandidate_returns by blast
    then show ?thesis using a Some Inr by (simp add: NextBackend_def)
  qed
qed

text \<open>The server \<open>twoBackends\<close> after its setup.\<close>

lemma twoBackends_eval:
  "schedulingObject twoBackends =
     Some (byOption\<lparr>state := [backend ''b1'' True False False, backend ''b2'' True False False]\<rparr>)"
  "Scheduling twoBackends = Some byOptionConfig"
  by (simp_all add: SetupScheduling_def chooseScheduling_def zeroServerConfig_def callStart_def callAdd_def)

text \<open>
  C1 as the specification states it fails: the loop assigns every static option to the
  caller's map, so for a key present in both the static value replaces the caller's.
  Here the caller asks for the backend \<open>b1\<close>, the static options name \<open>b2\<close>, and the
  algorithm, which hands out the backend named by the option it receives, gives \<open>b2\<close>.
\<close>

theorem NextBackend_caller_wins_counterexample:
  "Scheduling twoBackends = Some byOptionConfig \<and>
   [''id'' \<mapsto> ''b1''] ''id'' = Some ''b1'' \<and>
   Options byOptionConfig ''id'' = Some ''b2'' \<and>
   map_sum id fst (NextBackend examplePackage twoBackends (Some [''id'' \<mapsto> ''b1''])) =
     Inr (Some (backend ''b2'' True False False))"
  by (simp add: NextBackend_def nextCandidate_def callNext_def mergeOptions_def
      SetupScheduling_def chooseScheduling_def zeroServerConfig_def callStart_def callAdd_def)

text \<open>
  C1, amended: for every non-nil map that the caller supplies and every server with an
  active algorithm and a non-nil \<open>Scheduling\<close> config, the map \<open>m\<close> that \<open>NextBackend\<close>
  passes to the algorithm's \<open>Next\<close> is the caller's map overwritten by the static
  options: for a key present in both, the static value is the one passed to \<open>Next\<close>; a
  key that the static options do not have keeps the caller's value. \<open>Next\<close> is called
  with \<open>m\<close> on the active algorithm, its answer is the result when it is a candidate
  or the engine is in backup mode, and otherwise \<open>Next\<close> is called with the same
  \<open>m\<close> on the algorithm rebuilt for the backup tier.
\<close>

theorem NextBackend_static_options:
  assumes "schedulingObject this = Some obj" and "Scheduling this = Some config"
  shows "\<exists>m.
    (\<forall>k v. Options config k = Some v \<longrightarrow> m k = Some v) \<and>
    (\<forall>k. Options config k = None \<longrightarrow> m k = options k) \<and>
    (\<forall>candidate s1. Next obj (Some m) (state obj) = (Some candidate, s1) \<longrightarrow>
       NextBackend pkg this (Some options) =
         Inr (Some candidate, this\<lparr>schedulingObject := Some (obj\<lparr>state := s1\<rparr>)\<rparr>, Some m)) \<and>
    (\<forall>s1. Next obj (Some m) (state obj) = (None, s1) \<longrightarrow> schedulingIsBackup this \<longrightarrow>
       NextBackend pkg this (Some options) =
         Inr (None, this\<lparr>schedulingObject := Some (obj\<lparr>state := s1\<rparr>)\<rparr>, Some m)) \<and>
    (\<forall>s1 obj2. Next obj (Some m) (state obj) = (None, s1) \<longrightarrow> \<not> schedulingIsBackup this \<longrightarrow>
       schedulingObject (SetupScheduling pkg True this) = Some obj2 \<longrightarrow>
       NextBackend pkg this (Some options) =
         Inr (fst (Next obj2 (Some m) (state obj2)),
              (SetupScheduling pkg True this)
                \<lparr>schedulingObject := Some (obj2\<lparr>state := snd (Next obj2 (Some m) (state obj2))\<rparr>)\<rparr>,
              Some m))"
proof -
  have eq: "NextBackend pkg this (Some options) =
      nextCandidate pkg this obj (Some (options ++ Options config))"
    using assms by (simp add: NextBackend_def mergeOptions_Some)
  have static: "\<forall>k v. Options config k = Some v \<longrightarrow> (options ++ Options config) k = Some v"
    by (simp add: map_add_Some_iff)
  have caller: "\<forall>k. Options config k = None \<longrightarrow> (options ++ Options config) k = options k"
    by (simp add: map_add_def)
  show ?thesis
  proof (intro exI [of _ "options ++ Options config"] conjI allI impI)
    fix k v assume "Options config k = Some v"
    then show "(options ++ Options config) k = Some v" using static by blast
  next
    fix k assume "Options config k = None"
    then show "(options ++ Options config) k = options k" using caller by blast
  next
    fix candidate s1
    assume "Next obj (Some (options ++ Options config)) (state obj) = (Some candidate, s1)"
    then show "NextBackend pkg this (Some options) =
        Inr (Some candidate, this\<lparr>schedulingObject := Some (obj\<lparr>state := s1\<rparr>)\<rparr>,
             Some (options ++ Options config))"
      by (simp add: eq nextCandidate_found)
  next
    fix s1
    assume "Next obj (Some (options ++ Options config)) (state obj) = (None, s1)"
      and "schedulingIsBackup this"
    then show "NextBackend pkg this (Some options) =
        Inr (None, this\<lparr>schedulingObject := Some (obj\<lparr>state := s1\<rparr>)\<rparr>,
             Some (options ++ Options config))"
      by (simp add: eq nextCandidate_backup)
  next
    fix s1 obj2
    assume "Next obj (Some (options ++ Options config)) (state obj) = (None, s1)"
      and "\<not> schedulingIsBackup this"
      and "schedulingObject (SetupScheduling pkg True this) = Some obj2"
    then show "NextBackend pkg this (Some options) =
        Inr (fst (Next obj2 (Some (options ++ Options config)) (state obj2)),
             (SetupScheduling pkg True this)
               \<lparr>schedulingObject :=
                  Some (obj2\<lparr>state := snd (Next obj2 (Some (options ++ Options config)) (state obj2))\<rparr>)\<rparr>,
             Some (options ++ Options config))"
      by (simp add: eq nextCandidate_retry)
  qed
qed

theorem NextBackend_static_options_witness:
  "schedulingObject twoBackends =
     Some (byOption\<lparr>state := [backend ''b1'' True False False, backend ''b2'' True False False]\<rparr>) \<and>
   Scheduling twoBackends = Some byOptionConfig \<and>
   Options byOptionConfig ''id'' = Some ''b2'' \<and>
   map_sum id fst
     (NextBackend examplePackage twoBackends (Some [''id'' \<mapsto> ''b1'', ''x'' \<mapsto> ''y''])) =
     Inr (Some (backend ''b2'' True False False))"
proof -
  note obj = twoBackends_eval(1) and cfg = twoBackends_eval(2)
  obtain m where m: "\<forall>k v. Options byOptionConfig k = Some v \<longrightarrow> m k = Some v"
    and found: "\<forall>candidate s1.
      Next (byOption\<lparr>state := [backend ''b1'' True False False, backend ''b2'' True False False]\<rparr>)
        (Some m)
        (state (byOption\<lparr>state := [backend ''b1'' True False False, backend ''b2'' True False False]\<rparr>)) =
        (Some candidate, s1) \<longrightarrow>
      NextBackend examplePackage twoBackends (Some [''id'' \<mapsto> ''b1'', ''x'' \<mapsto> ''y'']) =
        Inr (Some candidate,
             twoBackends\<lparr>schedulingObject :=
               Some (byOption\<lparr>state := [backend ''b1'' True False False, backend ''b2'' True False False]\<rparr>
                     \<lparr>state := s1\<rparr>)\<rparr>,
             Some m)"
    using NextBackend_static_options [OF obj cfg, of "[''id'' \<mapsto> ''b1'', ''x'' \<mapsto> ''y'']" examplePackage]
    by blast
  have id: "m ''id'' = Some ''b2''" using m by simp
  have "Next (byOption\<lparr>state := [backend ''b1'' True False False, backend ''b2'' True False False]\<rparr>)
        (Some m)
        (state (byOption\<lparr>state := [backend ''b1'' True False False, backend ''b2'' True False False]\<rparr>)) =
      (Some (backend ''b2'' True False False),
       [backend ''b1'' True False False, backend ''b2'' True False False])"
    using id by simp
  then have "NextBackend examplePackage twoBackends (Some [''id'' \<mapsto> ''b1'', ''x'' \<mapsto> ''y'']) =
        Inr (Some (backend ''b2'' True False False),
             twoBackends\<lparr>schedulingObject :=
               Some (byOption\<lparr>state := [backend ''b1'' True False False, backend ''b2'' True False False]\<rparr>
                     \<lparr>state := [backend ''b1'' True False False, backend ''b2'' True False False]\<rparr>)\<rparr>,
             Some m)"
    using found by blast
  then show ?thesis using obj cfg by simp
qed

text \<open>
  C10 as stated fails on the first guard of \<open>NextBackend\<close>: with no algorithm set up
  the function returns nil before the loop, and the caller's map is left as it was,
  whatever the \<open>Scheduling\<close> config holds. It fails on a nil map as well: there is no map
  object to write into, and the first assignment of the loop panics.
\<close>

theorem NextBackend_no_algorithm_counterexample:
  "Scheduling (plainServer\<lparr>Scheduling := Some byOptionConfig\<rparr>) = Some byOptionConfig \<and>
   Options byOptionConfig ''id'' = Some ''b2'' \<and>
   NextBackend examplePackage (plainServer\<lparr>Scheduling := Some byOptionConfig\<rparr>) (Some Map.empty) =
     Inr (None, plainServer\<lparr>Scheduling := Some byOptionConfig\<rparr>, Some Map.empty) \<and>
   Scheduling twoBackends = Some byOptionConfig \<and>
   map_sum id (snd \<circ> snd) (NextBackend examplePackage twoBackends None) =
     Inl AssignmentToEntryInNilMap"
  by (simp add: NextBackend_def mergeOptions_def SetupScheduling_def chooseScheduling_def
      zeroServerConfig_def)

text \<open>
  C10, amended: when the server has an active algorithm, its \<open>Scheduling\<close> config is
  non-nil and the map that the caller passes in is non-nil, \<open>NextBackend\<close> writes the
  static scheduling options into that map: after the call it is the caller's map
  overwritten by the static options, a static entry holding its static value and every
  other key its former value. With a nil map the call panics exactly when there is a
  static option to write.
\<close>

theorem NextBackend_writes_options:
  assumes "schedulingObject this = Some obj" and "Scheduling this = Some config"
  shows "(\<exists>candidate this1. NextBackend pkg this (Some options) =
      Inr (candidate, this1, Some (options ++ Options config))) \<and>
    (\<forall>k v. Options config k = Some v \<longrightarrow> (options ++ Options config) k = Some v) \<and>
    (\<forall>k. Options config k = None \<longrightarrow> (options ++ Options config) k = options k) \<and>
    (NextBackend pkg this None = Inl AssignmentToEntryInNilMap \<longleftrightarrow> Options config \<noteq> Map.empty)"
proof -
  have eq: "NextBackend pkg this (Some options) =
      nextCandidate pkg this obj (Some (options ++ Options config))"
    using assms by (simp add: NextBackend_def mergeOptions_Some)
  obtain r where r: "nextCandidate pkg this obj (Some (options ++ Options config)) = Inr r"
    using nextCandidate_returns by blast
  obtain candidate this1 options1 where "r = (candidate, this1, options1)"
    by (cases r) auto
  then have first: "\<exists>candidate this1. NextBackend pkg this (Some options) =
      Inr (candidate, this1, Some (options ++ Options config))"
    using eq r nextCandidate_options [of pkg this obj _ candidate this1 options1] by auto
  have static: "\<forall>k v. Options config k = Some v \<longrightarrow> (options ++ Options config) k = Some v"
    by (simp add: map_add_Some_iff)
  have caller: "\<forall>k. Options config k = None \<longrightarrow> (options ++ Options config) k = options k"
    by (simp add: map_add_def)
  have nil: "NextBackend pkg this None = Inl AssignmentToEntryInNilMap \<longleftrightarrow>
      Options config \<noteq> Map.empty"
    using assms NextBackend_panics [of pkg this None] by simp
  show ?thesis using first static caller nil by blast
qed

theorem NextBackend_writes_options_witness:
  "schedulingObject twoBackends =
     Some (byOption\<lparr>state := [backend ''b1'' True False False, backend ''b2'' True False False]\<rparr>) \<and>
   Scheduling twoBackends = Some byOptionConfig \<and>
   (\<exists>candidate this1.
      NextBackend examplePackage twoBackends (Some [''x'' \<mapsto> ''y'']) =
        Inr (candidate, this1, Some ([''x'' \<mapsto> ''y''] ++ [''id'' \<mapsto> ''b2'']))) \<and>
   ([''x'' \<mapsto> ''y''] ++ [''id'' \<mapsto> ''b2'']) ''id'' = Some ''b2'' \<and>
   ([''x'' \<mapsto> ''y''] ++ [''id'' \<mapsto> ''b2'']) ''x'' = Some ''y''"
proof -
  note obj = twoBackends_eval(1) and cfg = twoBackends_eval(2)
  show ?thesis
    using obj cfg NextBackend_writes_options [OF obj cfg, of examplePackage "[''x'' \<mapsto> ''y'']"]
    by simp
qed

text \<open>
  C2 as the specification states it fails in its last part: with an algorithm set up, a
  static option configured and a nil map from the caller, \<open>NextBackend\<close> panics on the
  first assignment of the merging loop, here on a server with no backend at all.
\<close>

theorem NextBackend_nil_map_counterexample:
  "ServerConfig.Backends
     (SetupScheduling examplePackage False (plainServer\<lparr>Scheduling := Some byOptionConfig\<rparr>)) = [] \<and>
   Options byOptionConfig ''id'' = Some ''b2'' \<and>
   NextBackend examplePackage
     (SetupScheduling examplePackage False (plainServer\<lparr>Scheduling := Some byOptionConfig\<rparr>)) None =
     Inl AssignmentToEntryInNilMap"
  by (simp add: NextBackend_def mergeOptions_def SetupScheduling_def chooseScheduling_def
      zeroServerConfig_def)

text \<open>
  C2, amended: for every engine state and every options argument. With no algorithm set
  up \<open>NextBackend\<close> returns nil. When the algorithm, asked with the merged options,
  yields no candidate and the engine is not in backup mode, \<open>NextBackend\<close> rebuilds the
  algorithm with the enabled \<open>IsBackup\<close> backends only, sets the backup mode and calls
  \<open>Next\<close> exactly once more: the result is that candidate or nil. When the engine is in
  backup mode already, the result is nil and the server is as before, but for what the
  one call of \<open>Next\<close> did to the algorithm's own state. \<open>NextBackend\<close> raises no error
  unless an algorithm is set up, the caller's map is nil and the \<open>Scheduling\<close> config
  holds at least one static option: then, and only then, the merging loop panics, before
  the algorithm is asked.
\<close>

theorem NextBackend_failover:
  "(schedulingObject this = None \<longrightarrow> NextBackend pkg this options = Inr (None, this, options)) \<and>
   (\<forall>obj options1 s1.
      schedulingObject this = Some obj \<longrightarrow>
      mergeOptions (Scheduling this) options = Inr options1 \<longrightarrow>
      Next obj options1 (state obj) = (None, s1) \<longrightarrow>
      NextBackend pkg this options =
        (if schedulingIsBackup this then
           Inr (None, this\<lparr>schedulingObject := Some (obj\<lparr>state := s1\<rparr>)\<rparr>, options1)
         else
           (let chosen =
              (case Scheduling this of
                 None \<Rightarrow> RandomScheduling pkg
               | Some c \<Rightarrow>
                   (case FindSchedulingType pkg (Code c) of
                      None \<Rightarrow> RandomScheduling pkg
                    | Some instance \<Rightarrow> instance));
              obj2 = chosen\<lparr>state :=
                Start chosen
                  (foldl (\<lambda>s backend. Add chosen backend s) (state chosen)
                     (filter (\<lambda>b. ServerBackendConfig.On b \<and> \<not> IsDown b \<and> IsBackup b)
                        (ServerConfig.Backends this)))\<rparr>
            in Inr (fst (Next obj2 options1 (state obj2)),
                    this\<lparr> schedulingIsBackup := True,
                          Scheduling :=
                            (case Scheduling this of
                               None \<Rightarrow> None
                             | Some c \<Rightarrow>
                                 (case FindSchedulingType pkg (Code c) of
                                    None \<Rightarrow> None
                                  | Some instance \<Rightarrow> Some c)),
                          schedulingObject :=
                            Some (obj2\<lparr>state := snd (Next obj2 options1 (state obj2))\<rparr>) \<rparr>,
                    options1)))) \<and>
   (NextBackend pkg this options = Inl AssignmentToEntryInNilMap \<longleftrightarrow>
      schedulingObject this \<noteq> None \<and> options = None \<and>
      (\<exists>c. Scheduling this = Some c \<and> Options c \<noteq> Map.empty)) \<and>
   ((\<exists>r. NextBackend pkg this options = Inr r) \<longleftrightarrow>
      \<not> (schedulingObject this \<noteq> None \<and> options = None \<and>
         (\<exists>c. Scheduling this = Some c \<and> Options c \<noteq> Map.empty))) \<and>
   ((\<exists>options1. mergeOptions (Scheduling this) options = Inr options1) \<longleftrightarrow>
      \<not> (options = None \<and> (\<exists>c. Scheduling this = Some c \<and> Options c \<noteq> Map.empty)))"
proof (intro conjI allI impI)
  assume "schedulingObject this = None"
  then show "NextBackend pkg this options = Inr (None, this, options)"
    by (simp add: NextBackend_def)
next
  fix obj options1 s1
  assume a: "schedulingObject this = Some obj"
    "mergeOptions (Scheduling this) options = Inr options1"
    "Next obj options1 (state obj) = (None, s1)"
  have eq: "NextBackend pkg this options = nextCandidate pkg this obj options1"
    using a by (simp add: NextBackend_def)
  show "NextBackend pkg this options =
        (if schedulingIsBackup this then
           Inr (None, this\<lparr>schedulingObject := Some (obj\<lparr>state := s1\<rparr>)\<rparr>, options1)
         else
           (let chosen =
              (case Scheduling this of
                 None \<Rightarrow> RandomScheduling pkg
               | Some c \<Rightarrow>
                   (case FindSchedulingType pkg (Code c) of
                      None \<Rightarrow> RandomScheduling pkg
                    | Some instance \<Rightarrow> instance));
              obj2 = chosen\<lparr>state :=
                Start chosen
                  (foldl (\<lambda>s backend. Add chosen backend s) (state chosen)
                     (filter (\<lambda>b. ServerBackendConfig.On b \<and> \<not> IsDown b \<and> IsBackup b)
                        (ServerConfig.Backends this)))\<rparr>
            in Inr (fst (Next obj2 options1 (state obj2)),
                    this\<lparr> schedulingIsBackup := True,
                          Scheduling :=
                            (case Scheduling this of
                               None \<Rightarrow> None
                             | Some c \<Rightarrow>
                                 (case FindSchedulingType pkg (Code c) of
                                    None \<Rightarrow> None
                                  | Some instance \<Rightarrow> Some c)),
                          schedulingObject :=
                            Some (obj2\<lparr>state := snd (Next obj2 options1 (state obj2))\<rparr>) \<rparr>,
                    options1)))"
  proof (cases "schedulingIsBackup this")
    case True
    then show ?thesis using a(3) by (simp add: eq nextCandidate_backup)
  next
    case False
    show ?thesis
      using False nextCandidate_retry [OF a(3) False, of pkg]
      by (simp add: eq SetupScheduling_explicit [of pkg True this] Let_def)
  qed
next
  show "NextBackend pkg this options = Inl AssignmentToEntryInNilMap \<longleftrightarrow>
      schedulingObject this \<noteq> None \<and> options = None \<and>
      (\<exists>c. Scheduling this = Some c \<and> Options c \<noteq> Map.empty)"
    by (rule NextBackend_panics)
next
  show "(\<exists>r. NextBackend pkg this options = Inr r) \<longleftrightarrow>
      \<not> (schedulingObject this \<noteq> None \<and> options = None \<and>
         (\<exists>c. Scheduling this = Some c \<and> Options c \<noteq> Map.empty))"
  proof (cases "NextBackend pkg this options")
    case (Inl p)
    then have "NextBackend pkg this options = Inl AssignmentToEntryInNilMap"
      using NextBackend_only_panic [of pkg this options p] by simp
    then show ?thesis using NextBackend_panics [of pkg this options] by simp
  next
    case (Inr r)
    then have "\<exists>r. NextBackend pkg this options = Inr r" by blast
    moreover have "\<not> (schedulingObject this \<noteq> None \<and> options = None \<and>
         (\<exists>c. Scheduling this = Some c \<and> Options c \<noteq> Map.empty))"
      using Inr NextBackend_panics [of pkg this options] by simp
    ultimately show ?thesis by blast
  qed
next
  show "(\<exists>options1. mergeOptions (Scheduling this) options = Inr options1) \<longleftrightarrow>
      \<not> (options = None \<and> (\<exists>c. Scheduling this = Some c \<and> Options c \<noteq> Map.empty))"
    by (auto simp: mergeOptions_def split: option.splits if_splits)
qed

theorem NextBackend_failover_witness:
  "schedulingObject onlyBackup = Some firstCandidate \<and>
   mergeOptions (Scheduling onlyBackup) (Some Map.empty) = Inr (Some Map.empty) \<and>
   Next firstCandidate (Some Map.empty) (state firstCandidate) = (None, []) \<and>
   \<not> schedulingIsBackup onlyBackup \<and>
   NextBackend examplePackage onlyBackup (Some Map.empty) =
     Inr (Some (backend ''b1'' True False True),
          onlyBackup\<lparr> schedulingIsBackup := True,
                      schedulingObject :=
                        Some (firstCandidate\<lparr>state := [backend ''b1'' True False True]\<rparr>) \<rparr>,
          Some Map.empty) \<and>
   schedulingIsBackup (SetupScheduling examplePackage True plainServer) \<and>
   schedulingObject (SetupScheduling examplePackage True plainServer) = Some firstCandidate \<and>
   NextBackend examplePackage (SetupScheduling examplePackage True plainServer) (Some Map.empty) =
     Inr (None, SetupScheduling examplePackage True plainServer, Some Map.empty) \<and>
   NextBackend examplePackage plainServer None = Inr (None, plainServer, None) \<and>
   NextBackend examplePackage twoBackends None = Inl AssignmentToEntryInNilMap"
proof -
  have a: "schedulingObject onlyBackup = Some firstCandidate"
    "mergeOptions (Scheduling onlyBackup) (Some Map.empty) = Inr (Some Map.empty)"
    "Next firstCandidate (Some Map.empty) (state firstCandidate) = (None, [])"
    "\<not> schedulingIsBackup onlyBackup"
    by (simp_all add: SetupScheduling_def chooseScheduling_def zeroServerConfig_def callStart_def
        callAdd_def mergeOptions_def)
  have b: "schedulingIsBackup (SetupScheduling examplePackage True plainServer)"
    "schedulingObject (SetupScheduling examplePackage True plainServer) = Some firstCandidate"
    "mergeOptions (Scheduling (SetupScheduling examplePackage True plainServer)) (Some Map.empty) =
       Inr (Some Map.empty)"
    by (simp_all add: SetupScheduling_def chooseScheduling_def zeroServerConfig_def callStart_def
        callAdd_def mergeOptions_def)
  have c: "schedulingObject plainServer = None"
    by (simp add: zeroServerConfig_def)
  have primary: "NextBackend examplePackage onlyBackup (Some Map.empty) =
     Inr (Some (backend ''b1'' True False True),
          onlyBackup\<lparr> schedulingIsBackup := True,
                      schedulingObject :=
                        Some (firstCandidate\<lparr>state := [backend ''b1'' True False True]\<rparr>) \<rparr>,
          Some Map.empty)"
    using a NextBackend_failover [where this = onlyBackup and pkg = examplePackage
        and options = "Some Map.empty"]
    by (simp add: SetupScheduling_def chooseScheduling_def zeroServerConfig_def Let_def)
  have backup: "NextBackend examplePackage (SetupScheduling examplePackage True plainServer)
      (Some Map.empty) =
     Inr (None, SetupScheduling examplePackage True plainServer, Some Map.empty)"
    using b NextBackend_failover [where this = "SetupScheduling examplePackage True plainServer"
        and pkg = examplePackage and options = "Some Map.empty"]
    by (simp add: SetupScheduling_def chooseScheduling_def zeroServerConfig_def callStart_def)
  have none: "NextBackend examplePackage plainServer None = Inr (None, plainServer, None)"
    using c NextBackend_failover [where this = plainServer and pkg = examplePackage
        and options = None]
    by simp
  have panic: "NextBackend examplePackage twoBackends None = Inl AssignmentToEntryInNilMap"
    using twoBackends_eval NextBackend_failover [where this = twoBackends and pkg = examplePackage
        and options = None]
    by simp
  show ?thesis using a b(1,2) primary backup none panic by simp
qed

section \<open>Properties of \<open>Validate\<close>\<close>

lemma runSteps_append:
  "runSteps (fs @ gs) a =
     (case runSteps fs a of (Some err, a1) \<Rightarrow> (Some err, a1) | (None, a1) \<Rightarrow> runSteps gs a1)"
  by (induction fs arbitrary: a) (auto split: prod.splits option.splits)

lemma runSteps_single: "runSteps [f] a = f a"
  by (simp split: prod.splits option.splits)

text \<open>A field that every step leaves alone is left alone by the steps in sequence.\<close>

lemma runSteps_preserves:
  "(\<And>f a. f \<in> set fs \<Longrightarrow> P (snd (f a)) = P a) \<Longrightarrow> P (snd (runSteps fs a)) = P a"
proof (induction fs arbitrary: a)
  case Nil
  then show ?case by simp
next
  case (Cons f fs)
  have f: "P (snd (f a)) = P a" using Cons.prems by simp
  have rest: "\<And>a1. P (snd (runSteps fs a1)) = P a1" using Cons by simp
  obtain r a1 where fa: "f a = (r, a1)" by fastforce
  show ?case
  proof (cases r)
    case None
    then show ?thesis using fa f rest [of a1] by simp
  next
    case (Some err)
    then show ?thesis using fa f by simp
  qed
qed

lemma steps_keep_cache:
  "CachePolicy (snd (validateSSL env this)) = CachePolicy this"
  "cachePolicy (snd (validateSSL env this)) = cachePolicy this"
  "CachePolicy (snd (validateBackends env this)) = CachePolicy this"
  "cachePolicy (snd (validateBackends env this)) = cachePolicy this"
  "CachePolicy (snd (validateScheduling pkg this)) = CachePolicy this"
  "cachePolicy (snd (validateScheduling pkg this)) = cachePolicy this"
  "CachePolicy (snd (validateLocations env this)) = CachePolicy this"
  "cachePolicy (snd (validateLocations env this)) = cachePolicy this"
  "CachePolicy (snd (validateFastcgi env this)) = CachePolicy this"
  "cachePolicy (snd (validateFastcgi env this)) = cachePolicy this"
  "CachePolicy (snd (validateRewriteRules env this)) = CachePolicy this"
  "cachePolicy (snd (validateRewriteRules env this)) = cachePolicy this"
  "CachePolicy (snd (validateHeaders env this)) = CachePolicy this"
  "cachePolicy (snd (validateHeaders env this)) = cachePolicy this"
  "cachePolicy (snd (validateAPI env this)) = cachePolicy this"
  by (simp_all add: validateSSL_def validateBackends_def validateScheduling_def
      validateLocations_def validateFastcgi_def validateRewriteRules_def validateHeaders_def
      validateAPI_def SetupScheduling_def split: option.splits prod.splits)

lemma steps_keep_scheduling:
  "Scheduling (snd (validateSSL env this)) = Scheduling this"
  "Scheduling (snd (validateBackends env this)) = Scheduling this"
  "Scheduling (snd (validateLocations env this)) = Scheduling this"
  "schedulingObject (snd (validateLocations env this)) = schedulingObject this"
  "Scheduling (snd (validateFastcgi env this)) = Scheduling this"
  "schedulingObject (snd (validateFastcgi env this)) = schedulingObject this"
  "Scheduling (snd (validateRewriteRules env this)) = Scheduling this"
  "schedulingObject (snd (validateRewriteRules env this)) = schedulingObject this"
  "Scheduling (snd (validateHeaders env this)) = Scheduling this"
  "schedulingObject (snd (validateHeaders env this)) = schedulingObject this"
  "Scheduling (snd (validateCachePolicy env this)) = Scheduling this"
  "schedulingObject (snd (validateCachePolicy env this)) = schedulingObject this"
  "Scheduling (snd (validateAPI env this)) = Scheduling this"
  "schedulingObject (snd (validateAPI env this)) = schedulingObject this"
  by (simp_all add: validateSSL_def validateBackends_def
      validateLocations_def validateFastcgi_def validateRewriteRules_def validateHeaders_def
      validateCachePolicy_def validateAPI_def split: option.splits prod.splits)

lemma before_cache_keeps:
  "CachePolicy (snd (runSteps (stepsBeforeCachePolicy pkg env) this)) = CachePolicy this"
  "cachePolicy (snd (runSteps (stepsBeforeCachePolicy pkg env) this)) = cachePolicy this"
proof -
  show "CachePolicy (snd (runSteps (stepsBeforeCachePolicy pkg env) this)) = CachePolicy this"
    by (rule runSteps_preserves [where P = CachePolicy])
       (auto simp: stepsBeforeCachePolicy_def steps_keep_cache)
  show "cachePolicy (snd (runSteps (stepsBeforeCachePolicy pkg env) this)) = cachePolicy this"
    by (rule runSteps_preserves [where P = cachePolicy])
       (auto simp: stepsBeforeCachePolicy_def steps_keep_cache)
qed

lemma after_scheduling_keeps:
  "Scheduling (snd (runSteps [validateLocations env, validateFastcgi env,
      validateRewriteRules env, validateHeaders env, validateCachePolicy env, validateAPI env] this)) =
   Scheduling this"
  "schedulingObject (snd (runSteps [validateLocations env, validateFastcgi env,
      validateRewriteRules env, validateHeaders env, validateCachePolicy env, validateAPI env] this)) =
   schedulingObject this"
proof -
  show "Scheduling (snd (runSteps [validateLocations env, validateFastcgi env,
      validateRewriteRules env, validateHeaders env, validateCachePolicy env, validateAPI env] this)) =
   Scheduling this"
    by (rule runSteps_preserves [where P = Scheduling]) (auto simp: steps_keep_scheduling)
  show "schedulingObject (snd (runSteps [validateLocations env, validateFastcgi env,
      validateRewriteRules env, validateHeaders env, validateCachePolicy env, validateAPI env] this)) =
   schedulingObject this"
    by (rule runSteps_preserves [where P = schedulingObject]) (auto simp: steps_keep_scheduling)
qed

lemma validate_commute:
  "validateSSL env (this\<lparr>Scheduling := x\<rparr>) =
     (case validateSSL env this of (r, s) \<Rightarrow> (r, s\<lparr>Scheduling := x\<rparr>))"
  "validateBackends env (this\<lparr>Scheduling := x\<rparr>) =
     (case validateBackends env this of (r, s) \<Rightarrow> (r, s\<lparr>Scheduling := x\<rparr>))"
  by (simp_all add: validateSSL_def validateBackends_def split: option.splits prod.splits)

lemma SetupScheduling_unknown:
  "Scheduling this = Some config \<Longrightarrow> FindSchedulingType pkg (Code config) = None \<Longrightarrow>
   SetupScheduling pkg isBackup (this\<lparr>Scheduling := None\<rparr>) = SetupScheduling pkg isBackup this"
  by (simp add: SetupScheduling_def chooseScheduling_def)

lemma Validate_unfold:
  "Validate pkg env this =
     (case validateSSL env this of
        (Some err, s1) \<Rightarrow> (Some err, s1)
      | (None, s1) \<Rightarrow>
          (case validateBackends env s1 of
             (Some err, s2) \<Rightarrow> (Some err, s2)
           | (None, s2) \<Rightarrow>
               runSteps [validateLocations env, validateFastcgi env, validateRewriteRules env,
                 validateHeaders env, validateCachePolicy env, validateAPI env]
                 (SetupScheduling pkg False s2)))"
  by (simp add: Validate_def stepsBeforeCachePolicy_def validateScheduling_def
      split: prod.splits option.splits)

text \<open>
  C6: for every server whose \<open>Scheduling.Code\<close> the registry does not know,
  \<open>SetupScheduling\<close> sets \<open>Scheduling\<close> to nil and installs the default algorithm,
  populated with the backends of the tier, as the active one; it has no error to return.
  \<open>Validate\<close> returns the error that it returns for the same server with no scheduling
  configured, and once the SSL settings and the backends have passed, it leaves
  \<open>Scheduling\<close> nil and the default algorithm active, whatever the later steps return.
\<close>

theorem SetupScheduling_unknown_code:
  assumes "Scheduling this = Some config" and "FindSchedulingType pkg (Code config) = None"
  shows "Scheduling (SetupScheduling pkg isBackup this) = None \<and>
    schedulingObject (SetupScheduling pkg isBackup this) =
      Some (callStart (addBackends isBackup (ServerConfig.Backends this) (RandomScheduling pkg))) \<and>
    fst (Validate pkg env this) = fst (Validate pkg env (this\<lparr>Scheduling := None\<rparr>)) \<and>
    (\<forall>this1. runSteps [validateSSL env, validateBackends env] this = (None, this1) \<longrightarrow>
       Scheduling (snd (Validate pkg env this)) = None \<and>
       schedulingObject (snd (Validate pkg env this)) =
         Some (callStart (addBackends False (ServerConfig.Backends this1) (RandomScheduling pkg))))"
proof (intro conjI allI impI)
  show "Scheduling (SetupScheduling pkg isBackup this) = None"
    using assms by (simp add: SetupScheduling_def chooseScheduling_def)
  show "schedulingObject (SetupScheduling pkg isBackup this) =
      Some (callStart (addBackends isBackup (ServerConfig.Backends this) (RandomScheduling pkg)))"
    using assms by (simp add: SetupScheduling_def chooseScheduling_def)
next
  obtain r1 s1 where v1: "validateSSL env this = (r1, s1)" by fastforce
  obtain r2 s2 where v2: "validateBackends env s1 = (r2, s2)" by fastforce
  have k1: "Scheduling s1 = Some config"
    using steps_keep_scheduling(1) [of env this] v1 assms(1) by simp
  have k2: "Scheduling s2 = Some config"
    using steps_keep_scheduling(2) [of env s1] v2 k1 by simp
  have same: "SetupScheduling pkg False (s2\<lparr>Scheduling := None\<rparr>) = SetupScheduling pkg False s2"
    using k2 assms(2) by (rule SetupScheduling_unknown)
  show "fst (Validate pkg env this) = fst (Validate pkg env (this\<lparr>Scheduling := None\<rparr>))"
    using v1 v2 same
    by (cases r1; cases r2) (simp_all add: Validate_unfold validate_commute)
next
  fix this1
  assume steps: "runSteps [validateSSL env, validateBackends env] this = (None, this1)"
  obtain r1 s1 where v1: "validateSSL env this = (r1, s1)" by fastforce
  have r1: "r1 = None" using steps v1 by (cases r1) simp_all
  have v2: "validateBackends env s1 = (None, this1)"
    using steps v1 r1 by (simp split: prod.splits option.splits)
  have k1: "Scheduling s1 = Some config"
    using steps_keep_scheduling(1) [of env this] v1 assms(1) by simp
  have k2: "Scheduling this1 = Some config"
    using steps_keep_scheduling(2) [of env s1] v2 k1 by simp
  have v: "Validate pkg env this =
      runSteps [validateLocations env, validateFastcgi env, validateRewriteRules env,
        validateHeaders env, validateCachePolicy env, validateAPI env]
        (SetupScheduling pkg False this1)"
    using v1 r1 v2 by (simp add: Validate_unfold)
  show "Scheduling (snd (Validate pkg env this)) = None"
    using k2 assms(2)
    by (simp add: v after_scheduling_keeps SetupScheduling_def chooseScheduling_def
        del: runSteps.simps)
  show "schedulingObject (snd (Validate pkg env this)) =
      Some (callStart (addBackends False (ServerConfig.Backends this1) (RandomScheduling pkg)))"
    using k2 assms(2)
    by (simp add: v after_scheduling_keeps SetupScheduling_def chooseScheduling_def
        del: runSteps.simps)
qed

theorem SetupScheduling_unknown_code_witness:
  "Scheduling unknownCode = Some \<lparr> Code = ''does-not-exist'', Options = Map.empty \<rparr> \<and>
   FindSchedulingType examplePackage ''does-not-exist'' = None \<and>
   Scheduling (SetupScheduling examplePackage False unknownCode) = None \<and>
   schedulingObject (SetupScheduling examplePackage False unknownCode) =
     Some (firstCandidate\<lparr>state := [backend ''p1'' True False False]\<rparr>) \<and>
   runSteps [validateSSL acceptAll, validateBackends acceptAll] unknownCode = (None, unknownCode) \<and>
   fst (Validate examplePackage acceptAll unknownCode) = None \<and>
   Scheduling (snd (Validate examplePackage acceptAll unknownCode)) = None \<and>
   schedulingObject (snd (Validate examplePackage acceptAll unknownCode)) =
     Some (firstCandidate\<lparr>state := [backend ''p1'' True False False]\<rparr>)"
proof -
  have c: "Scheduling unknownCode = Some \<lparr> Code = ''does-not-exist'', Options = Map.empty \<rparr>"
    by (simp add: zeroServerConfig_def)
  have f: "FindSchedulingType examplePackage
      (Code \<lparr> Code = ''does-not-exist'', Options = (Map.empty :: string Map) \<rparr>) = None"
    by simp
  have s: "runSteps [validateSSL acceptAll, validateBackends acceptAll] unknownCode =
      (None, unknownCode)"
    by (simp add: validateSSL_def validateBackends_def zeroServerConfig_def)
  have v: "fst (Validate examplePackage acceptAll (unknownCode\<lparr>Scheduling := None\<rparr>)) = None"
    by (simp add: Validate_def stepsBeforeCachePolicy_def validateSSL_def validateBackends_def
      validateScheduling_def validateLocations_def validateFastcgi_def validateRewriteRules_def
      validateHeaders_def validateCachePolicy_def validateAPI_def zeroServerConfig_def
      SetupScheduling_def chooseScheduling_def)
  show ?thesis
    using c s v SetupScheduling_unknown_code [OF c f, of False acceptAll]
    by (simp add: zeroServerConfig_def callStart_def callAdd_def del: runSteps.simps)
qed

text \<open>
  C5 as the specification states it fails: when the named cache policy cannot be
  resolved, \<open>Validate\<close> skips the policy and returns no error.
\<close>

theorem Validate_unresolved_policy_counterexample:
  "CachePolicy (plainServer\<lparr>CachePolicy := ''missing''\<rparr>) \<noteq> [] \<and>
   NewCachePolicyFromFile acceptAll (CachePolicy (plainServer\<lparr>CachePolicy := ''missing''\<rparr>)) = None \<and>
   fst (Validate examplePackage acceptAll (plainServer\<lparr>CachePolicy := ''missing''\<rparr>)) = None"
  by (simp add: Validate_def stepsBeforeCachePolicy_def validateSSL_def validateBackends_def
      validateScheduling_def validateLocations_def validateFastcgi_def validateRewriteRules_def
      validateHeaders_def validateCachePolicy_def validateAPI_def zeroServerConfig_def
      SetupScheduling_def chooseScheduling_def)

lemma steps_eval:
  "runSteps (stepsBeforeCachePolicy examplePackage acceptAll) (plainServer\<lparr>CachePolicy := name\<rparr>) =
     (None, SetupScheduling examplePackage False (plainServer\<lparr>CachePolicy := name\<rparr>))"
  by (simp add: stepsBeforeCachePolicy_def validateSSL_def validateBackends_def
      validateScheduling_def validateLocations_def validateFastcgi_def validateRewriteRules_def
      validateHeaders_def zeroServerConfig_def SetupScheduling_def chooseScheduling_def)

text \<open>
  C5, amended: if a non-empty \<open>CachePolicy\<close> name is set and the steps before the cache
  policy pass, \<open>Validate\<close> resolves the named policy. When the policy cannot be
  resolved, \<open>Validate\<close> goes on to the API step with \<open>cachePolicy\<close> unchanged; when the
  validation of the resolved policy fails, \<open>Validate\<close> returns that error and
  \<open>cachePolicy\<close> is unchanged; only when the policy is resolved and valid is it assigned
  to \<open>cachePolicy\<close>.
\<close>

theorem Validate_cache_policy:
  assumes "runSteps (stepsBeforeCachePolicy pkg env) this = (None, this1)"
    and "CachePolicy this \<noteq> []"
  shows "cachePolicy this1 = cachePolicy this \<and>
    (case NewCachePolicyFromFile env (CachePolicy this) of
       None \<Rightarrow>
         Validate pkg env this = validateAPI env this1 \<and>
         cachePolicy (snd (Validate pkg env this)) = cachePolicy this
     | Some policy \<Rightarrow>
         (case CachePolicy_Validate env policy of
            (Some err, policy1) \<Rightarrow>
              Validate pkg env this = (Some err, this1)
          | (None, policy1) \<Rightarrow>
              Validate pkg env this = validateAPI env (this1\<lparr>cachePolicy := Some policy1\<rparr>) \<and>
              cachePolicy (snd (Validate pkg env this)) = Some policy1))"
proof -
  have name: "CachePolicy this1 = CachePolicy this"
    using before_cache_keeps(1) [of pkg env this] assms(1) by simp
  have old: "cachePolicy this1 = cachePolicy this"
    using before_cache_keeps(2) [of pkg env this] assms(1) by simp
  have v: "Validate pkg env this =
      (case validateCachePolicy env this1 of
         (Some err, s) \<Rightarrow> (Some err, s)
       | (None, s) \<Rightarrow> validateAPI env s)"
    using assms(1)
    by (simp add: Validate_def runSteps_append split: prod.splits option.splits)
  show ?thesis
  proof (cases "NewCachePolicyFromFile env (CachePolicy this)")
    case None
    then show ?thesis
      using assms(2) name old by (simp add: v validateCachePolicy_def steps_keep_cache)
  next
    case (Some policy)
    obtain r policy1 where p: "CachePolicy_Validate env policy = (r, policy1)" by fastforce
    show ?thesis
      using Some p assms(2) name old
      by (cases r) (simp_all add: v validateCachePolicy_def steps_keep_cache)
  qed
qed

theorem Validate_cache_policy_witness:
  "runSteps (stepsBeforeCachePolicy examplePackage acceptAll) (plainServer\<lparr>CachePolicy := ''good''\<rparr>) =
     (None, SetupScheduling examplePackage False (plainServer\<lparr>CachePolicy := ''good''\<rparr>)) \<and>
   CachePolicy (plainServer\<lparr>CachePolicy := ''good''\<rparr>) \<noteq> [] \<and>
   fst (Validate examplePackage acceptAll (plainServer\<lparr>CachePolicy := ''good''\<rparr>)) = None \<and>
   cachePolicy (snd (Validate examplePackage acceptAll (plainServer\<lparr>CachePolicy := ''good''\<rparr>))) =
     Some ''good policy'' \<and>
   Validate examplePackage acceptAll (plainServer\<lparr>CachePolicy := ''bad''\<rparr>) =
     (Some (ValidationError ''bad policy''),
      SetupScheduling examplePackage False (plainServer\<lparr>CachePolicy := ''bad''\<rparr>)) \<and>
   cachePolicy (snd (Validate examplePackage acceptAll (plainServer\<lparr>CachePolicy := ''missing''\<rparr>))) =
     None"
proof -
  note s = steps_eval
  have api: "\<And>this :: (unit, unit, string, unit, string, ServerBackendConfig list) ServerConfig.
      fst (validateAPI acceptAll this) = None"
    by (simp add: validateAPI_def)
  have good: "fst (Validate examplePackage acceptAll (plainServer\<lparr>CachePolicy := ''good''\<rparr>)) = None \<and>
      cachePolicy (snd (Validate examplePackage acceptAll (plainServer\<lparr>CachePolicy := ''good''\<rparr>))) =
        Some ''good policy''"
    using Validate_cache_policy [OF s [of "''good''"]] by (simp add: api steps_keep_cache)
  have bad: "Validate examplePackage acceptAll (plainServer\<lparr>CachePolicy := ''bad''\<rparr>) =
      (Some (ValidationError ''bad policy''),
       SetupScheduling examplePackage False (plainServer\<lparr>CachePolicy := ''bad''\<rparr>))"
    using Validate_cache_policy [OF s [of "''bad''"]] by simp
  have missing: "cachePolicy (snd (Validate examplePackage acceptAll
      (plainServer\<lparr>CachePolicy := ''missing''\<rparr>))) = None"
    using Validate_cache_policy [OF s [of "''missing''"]] by (simp add: zeroServerConfig_def steps_keep_cache)
  show ?thesis
    using s [of "''good''"] good bad missing by simp
qed

section \<open>Properties of \<open>FindHeaderList\<close>\<close>

text \<open>\<open>FindLocation\<close> gives nil exactly when no location has the id.\<close>

lemma findLocation_None:
  "fst (findLocation validate locationId locations) = None \<longleftrightarrow>
     (\<forall>location\<in>set locations. LocationConfig.Id location \<noteq> locationId)"
  by (induction locations) (auto split: prod.splits)

lemma FindLocation_None:
  "(\<forall>location\<in>set (Locations this). LocationConfig.Id location \<noteq> locationId) \<Longrightarrow>
   \<exists>this1. FindLocation env this locationId = (None, this1)"
  using findLocation_None [of "LocationConfig_Validate env" locationId "Locations this"]
  by (auto simp: FindLocation_def split: prod.splits)

text \<open>
  C8: the first non-empty identifier in the order \<open>rewriteId\<close>, \<open>fastcgiId\<close>,
  \<open>backendId\<close>, \<open>locationId\<close> decides the branch: the identifiers after it in that
  order, \<open>locationId\<close> apart, are not read, and the owner returned is a rewrite rule, a
  fastcgi target, a backend or a location accordingly, and the server itself when all
  four are empty. Whenever \<open>locationId\<close> is non-empty and no location has that id, the
  result is the error that the location was not found, whatever the other identifiers
  are. With \<open>locationId\<close> and \<open>backendId\<close> given, no rewrite or fastcgi id, the
  location found and the backend found in it, the result is that backend, not the
  location.
\<close>

theorem FindHeaderList_priority:
  "(rewriteId \<noteq> [] \<longrightarrow>
      FindHeaderList env this locationId backendId rewriteId fastcgiId =
        FindHeaderList env this locationId [] rewriteId [] \<and>
      (\<forall>owner. fst (FindHeaderList env this locationId backendId rewriteId fastcgiId) = Inr owner \<longrightarrow>
         (\<exists>rewrite. owner = OfRewrite rewrite))) \<and>
   (rewriteId = [] \<longrightarrow> fastcgiId \<noteq> [] \<longrightarrow>
      FindHeaderList env this locationId backendId rewriteId fastcgiId =
        FindHeaderList env this locationId [] [] fastcgiId \<and>
      (\<forall>owner. fst (FindHeaderList env this locationId backendId rewriteId fastcgiId) = Inr owner \<longrightarrow>
         (\<exists>fastcgi. owner = OfFastcgi fastcgi))) \<and>
   (rewriteId = [] \<longrightarrow> fastcgiId = [] \<longrightarrow> backendId \<noteq> [] \<longrightarrow>
      (\<forall>owner. fst (FindHeaderList env this locationId backendId rewriteId fastcgiId) = Inr owner \<longrightarrow>
         (\<exists>backend. owner = OfBackend backend))) \<and>
   (rewriteId = [] \<longrightarrow> fastcgiId = [] \<longrightarrow> backendId = [] \<longrightarrow> locationId \<noteq> [] \<longrightarrow>
      (\<forall>owner. fst (FindHeaderList env this locationId backendId rewriteId fastcgiId) = Inr owner \<longrightarrow>
         (\<exists>location. owner = OfLocation location))) \<and>
   (rewriteId = [] \<longrightarrow> fastcgiId = [] \<longrightarrow> backendId = [] \<longrightarrow> locationId = [] \<longrightarrow>
      FindHeaderList env this locationId backendId rewriteId fastcgiId = (Inr OfServer, this)) \<and>
   (locationId \<noteq> [] \<longrightarrow>
      (\<forall>location\<in>set (Locations this). LocationConfig.Id location \<noteq> locationId) \<longrightarrow>
      fst (FindHeaderList env this locationId backendId rewriteId fastcgiId) = Inl LocationNotFound) \<and>
   (\<forall>location this1 backend.
      locationId \<noteq> [] \<longrightarrow> backendId \<noteq> [] \<longrightarrow> rewriteId = [] \<longrightarrow> fastcgiId = [] \<longrightarrow>
      FindLocation env this locationId = (Some location, this1) \<longrightarrow>
      LocationConfig_FindBackend location backendId = Some backend \<longrightarrow>
      FindHeaderList env this locationId backendId rewriteId fastcgiId =
        (Inr (OfBackend backend), this1))"
proof (intro conjI impI allI)
  assume "rewriteId \<noteq> []"
  then show "FindHeaderList env this locationId backendId rewriteId fastcgiId =
      FindHeaderList env this locationId [] rewriteId []"
    by (simp add: FindHeaderList_def)
next
  fix owner
  assume "rewriteId \<noteq> []"
    and "fst (FindHeaderList env this locationId backendId rewriteId fastcgiId) = Inr owner"
  then show "\<exists>rewrite. owner = OfRewrite rewrite"
    by (auto simp: FindHeaderList_def split: if_splits prod.splits option.splits)
next
  assume "rewriteId = []" and "fastcgiId \<noteq> []"
  then show "FindHeaderList env this locationId backendId rewriteId fastcgiId =
      FindHeaderList env this locationId [] [] fastcgiId"
    by (simp add: FindHeaderList_def)
next
  fix owner
  assume "rewriteId = []" and "fastcgiId \<noteq> []"
    and "fst (FindHeaderList env this locationId backendId rewriteId fastcgiId) = Inr owner"
  then show "\<exists>fastcgi. owner = OfFastcgi fastcgi"
    by (auto simp: FindHeaderList_def split: if_splits prod.splits option.splits)
next
  fix owner
  assume "rewriteId = []" and "fastcgiId = []" and "backendId \<noteq> []"
    and "fst (FindHeaderList env this locationId backendId rewriteId fastcgiId) = Inr owner"
  then show "\<exists>backend. owner = OfBackend backend"
    by (auto simp: FindHeaderList_def split: if_splits prod.splits option.splits)
next
  fix owner
  assume "rewriteId = []" and "fastcgiId = []" and "backendId = []" and "locationId \<noteq> []"
    and "fst (FindHeaderList env this locationId backendId rewriteId fastcgiId) = Inr owner"
  then show "\<exists>location. owner = OfLocation location"
    by (auto simp: FindHeaderList_def split: if_splits prod.splits option.splits)
next
  assume "rewriteId = []" and "fastcgiId = []" and "backendId = []" and "locationId = []"
  then show "FindHeaderList env this locationId backendId rewriteId fastcgiId = (Inr OfServer, this)"
    by (simp add: FindHeaderList_def)
next
  assume l: "locationId \<noteq> []"
    and "\<forall>location\<in>set (Locations this). LocationConfig.Id location \<noteq> locationId"
  then obtain this1 where "FindLocation env this locationId = (None, this1)"
    using FindLocation_None by blast
  then show "fst (FindHeaderList env this locationId backendId rewriteId fastcgiId) =
      Inl LocationNotFound"
    using l by (simp add: FindHeaderList_def)
next
  fix location this1 backend
  assume "locationId \<noteq> []" and "backendId \<noteq> []" and "rewriteId = []" and "fastcgiId = []"
    and "FindLocation env this locationId = (Some location, this1)"
    and "LocationConfig_FindBackend location backendId = Some backend"
  then show "FindHeaderList env this locationId backendId rewriteId fastcgiId =
      (Inr (OfBackend backend), this1)"
    by (simp add: FindHeaderList_def)
qed

theorem FindHeaderList_priority_witness:
  "FindLocation acceptAll withLocation ''L1'' = (Some location1, withLocation) \<and>
   LocationConfig_FindBackend location1 ''B1'' = Some (backend ''B1'' True False True) \<and>
   FindHeaderList acceptAll withLocation ''L1'' ''B1'' [] [] =
     (Inr (OfBackend (backend ''B1'' True False True)), withLocation) \<and>
   FindHeaderList acceptAll withLocation ''L1'' ''B1'' ''R1'' ''F1'' =
     (Inr (OfRewrite \<lparr> RewriteRule.Id = ''R1'' \<rparr>), withLocation) \<and>
   FindHeaderList acceptAll withLocation ''L1'' ''B1'' [] ''F1'' =
     (Inr (OfFastcgi \<lparr> FastcgiConfig.Id = ''F1'' \<rparr>), withLocation) \<and>
   FindHeaderList acceptAll withLocation ''L1'' [] [] [] = (Inr (OfLocation location1), withLocation) \<and>
   FindHeaderList acceptAll withLocation [] [] [] [] = (Inr OfServer, withLocation) \<and>
   FindHeaderList acceptAll withLocation [] ''B1'' [] [] =
     (Inr (OfBackend (backend ''B1'' True False False)), withLocation) \<and>
   fst (FindHeaderList acceptAll withLocation ''L2'' ''B1'' [] []) = Inl LocationNotFound \<and>
   fst (FindHeaderList acceptAll withLocation ''L2'' [] ''R1'' []) = Inl LocationNotFound \<and>
   fst (FindHeaderList acceptAll withLocation ''L2'' [] [] ''F1'') = Inl LocationNotFound \<and>
   fst (FindHeaderList acceptAll withLocation ''L2'' [] [] []) = Inl LocationNotFound"
  using FindHeaderList_priority [of "[]" acceptAll withLocation "''L1''" "''B1''" "[]"]
    FindHeaderList_priority [of "''R1''" acceptAll withLocation "''L1''" "''B1''" "''F1''"]
    FindHeaderList_priority [of "[]" acceptAll withLocation "''L2''" "''B1''" "[]"]
  by (simp add: FindHeaderList_def FindLocation_def FindBackend_def FindRewriteRule_def
      FindFastcgi_def LocationConfig_FindBackend_def zeroServerConfig_def)

end
